theory Spec2Isabelle
  imports Main "HOL-Library.AList"
begin

section \<open>Python string operations used by the web server\<close>

text \<open>
  Strings are lists of characters. The operations below are the ones the module
  \<^verbatim>\<open>OAuthCredmonWebserver.py\<close> calls on \<^verbatim>\<open>str\<close> values.
\<close>

text \<open>\<^verbatim>\<open>s.rstrip(chars)\<close>: drop the trailing characters that occur in \<open>chars\<close>.\<close>

definition rstrip_chars :: "string \<Rightarrow> string \<Rightarrow> string" where
  "rstrip_chars chars s = rev (dropWhile (\<lambda>c. c \<in> set chars) (rev s))"

text \<open>\<^verbatim>\<open>str.isspace\<close> on the code points below 256.\<close>

definition is_space :: "char \<Rightarrow> bool" where
  "is_space c = (c \<in> set [CHR 0x09, CHR 0x0A, CHR 0x0B, CHR 0x0C, CHR 0x0D,
                           CHR 0x1C, CHR 0x1D, CHR 0x1E, CHR 0x1F, CHR 0x20,
                           CHR 0x85, CHR 0xA0])"

text \<open>\<^verbatim>\<open>s.rstrip()\<close> and \<^verbatim>\<open>s.lstrip()\<close> without argument strip white space.\<close>

definition rstrip :: "string \<Rightarrow> string" where
  "rstrip s = rev (dropWhile is_space (rev s))"

definition lstrip :: "string \<Rightarrow> string" where
  "lstrip s = dropWhile is_space s"

text \<open>\<^verbatim>\<open>s.split(sep)\<close> for a separator of one character: every occurrence splits,
  and the empty string gives one empty field.\<close>

fun split_on :: "char \<Rightarrow> string \<Rightarrow> string list" where
  "split_on sep [] = [[]]"
| "split_on sep (c # cs) =
     (if c = sep then [] # split_on sep cs
      else (case split_on sep cs of
              [] \<Rightarrow> [[c]]
            | w # ws \<Rightarrow> (c # w) # ws))"

text \<open>\<^verbatim>\<open>s.startswith(p)\<close>.\<close>

definition startswith :: "string \<Rightarrow> string \<Rightarrow> bool" where
  "startswith s p = (take (length p) s = p)"

text \<open>\<^verbatim>\<open>s.replace(old, new, 1)\<close>: only the first occurrence of \<open>old\<close> is replaced.\<close>

fun replace_first :: "string \<Rightarrow> string \<Rightarrow> string \<Rightarrow> string" where
  "replace_first old new [] = (if old = [] then new else [])"
| "replace_first old new (c # cs) =
     (if take (length old) (c # cs) = old then new @ drop (length old) (c # cs)
      else c # replace_first old new cs)"

text \<open>\<^verbatim>\<open>s.replace(old, new)\<close> where \<open>old\<close> and \<open>new\<close> are single characters.\<close>

definition replace_char :: "char \<Rightarrow> char \<Rightarrow> string \<Rightarrow> string" where
  "replace_char old new s = map (\<lambda>c. if c = old then new else c) s"

text \<open>\<^verbatim>\<open>p in s\<close> for two strings: \<open>p\<close> occurs in \<open>s\<close> as a contiguous block.\<close>

fun is_substring :: "string \<Rightarrow> string \<Rightarrow> bool" where
  "is_substring p [] = (p = [])"
| "is_substring p (c # cs) = (take (length p) (c # cs) = p \<or> is_substring p cs)"

text \<open>\<^verbatim>\<open>os.path.join(a, b)\<close> on POSIX: an absolute second component discards the first.\<close>

definition path_join :: "string \<Rightarrow> string \<Rightarrow> string" where
  "path_join a b =
     (if startswith b ''/'' then b
      else if a = [] \<or> last a = CHR ''/'' then a @ b
      else a @ ''/'' @ b)"

text \<open>\<^verbatim>\<open>re.match("[0-9a-fA-F]+", key)\<close>: \<^verbatim>\<open>re.match\<close> anchors the pattern at the
  start of the string only, so it succeeds exactly when the longest prefix of
  hexadecimal digits is not empty.\<close>

definition is_hex :: "char \<Rightarrow> bool" where
  "is_hex c = (c \<in> set ''0123456789abcdefABCDEF'')"

definition re_match_hex :: "string \<Rightarrow> bool" where
  "re_match_hex k = (takeWhile is_hex k \<noteq> [])"


section \<open>Data model\<close>

text \<open>JSON values as Python holds them after \<^verbatim>\<open>json\<close> decoding; a dictionary is an
  association list with distinct keys, in insertion order.\<close>

datatype json =
    JNull
  | JBool bool
  | JNum int
  | JStr string
  | JArr "json list"
  | JObj "(string \<times> json) list"

text \<open>A ClassAd of the key file: attribute names with their (string) values.\<close>

type_synonym classad = "(string \<times> string) list"

text \<open>
  The exceptions that can leave a request handler. The module raises plain
  \<^verbatim>\<open>Exception\<close> objects told apart by their message; each message has a constructor:
  \<^item> \<open>KeyIdNotValid\<close>: "Key id ... is not a valid key" (the format error of the spec);
  \<^item> \<open>KeyFileDoesntExist\<close>: "Key file ... doesn't exist" (NotFoundError);
  \<^item> \<open>ProviderNotInKeyFile\<close>: "Provider ... not in key file ..." (NotFoundError);
  \<^item> \<open>ProviderNotInList\<close>: "Provider ... not in list of providers" (UnknownProviderError).
  The others are the Python exception classes of the same name; \<open>CsrfMismatchError\<close> and
  \<open>TokenExchangeError\<close> are what the OAuth library raises from \<^verbatim>\<open>fetch_token\<close>.
\<close>

datatype error =
    KeyIdNotValid string
  | KeyFileDoesntExist string
  | ProviderNotInKeyFile string string
  | ProviderNotInList string
  | KeyError string
  | UnboundLocalError string
  | TypeError
  | AttributeError
  | OSError
  | ConnectionError
  | CsrfMismatchError
  | TokenExchangeError

text \<open>One entry of \<^verbatim>\<open>session['providers']\<close>. Keys that the code adds later
  (\<^verbatim>\<open>state\<close>, \<^verbatim>\<open>username\<close>) or only sometimes (\<^verbatim>\<open>requested_scopes\<close>,
  \<^verbatim>\<open>requested_resource\<close>) are optional. The field \<open>plogged_in\<close> is the key
  \<^verbatim>\<open>logged_in\<close> of the provider's dictionary.\<close>

record provider_session =
  plogged_in :: bool
  requested_scopes :: "string list option"
  requested_resource :: "string option"
  state :: "string option"
  username :: "json option"

text \<open>The session dictionary, with the keys of the dictionary that \<^verbatim>\<open>key\<close> builds and
  the optional \<^verbatim>\<open>outgoing_provider\<close> of \<^verbatim>\<open>oauth_login\<close>. A session without one of the
  first four keys, on which the handlers raise \<^verbatim>\<open>KeyError\<close>, is not a value of the
  type.\<close>

record session =
  providers :: "(string \<times> provider_session) list"
  logged_in :: bool
  key_path :: string
  local_username :: string
  outgoing_provider :: "string option"

text \<open>Effects on the outside world, in the order the handler performs them.\<close>

datatype event =
    PathExists string
  | OpenFile string
  | IsDir string
  | MakeDirs string
  | MkStemp string
  | Rename nat string
  | HttpPost string
  | HttpGet string

fun is_network :: "event \<Rightarrow> bool" where
  "is_network (HttpPost u) = True"
| "is_network (HttpGet u) = True"
| "is_network e = False"

fun is_file_access :: "event \<Rightarrow> bool" where
  "is_file_access (HttpPost u) = False"
| "is_file_access (HttpGet u) = False"
| "is_file_access e = True"

text \<open>
  The mutable state a request works on: the Flask session, the key files (path to the
  ClassAds the file holds), the directories, the credential files (path to contents), the
  temporary files made by \<^verbatim>\<open>tempfile.mkstemp\<close> (numbered in creation order, with the
  number of those made so far), and the trace of effects. A file the module writes is
  empty or holds the JSON value dumped into it.
\<close>

datatype contents = Empty | Dumped json

record world =
  flask_session :: session
  key_files :: "string \<rightharpoonup> classad list"
  directories :: "string set"
  cred_files :: "string \<rightharpoonup> contents"
  temp_files :: "nat \<rightharpoonup> contents"
  temp_count :: nat
  trace :: "event list"

datatype http_result = TransportError | Body "json option"

text \<open>
  The collaborators of the module that are not part of this file, as parameters:
  \<^item> \<open>cred_dir\<close>: the directory \<^verbatim>\<open>credmon.utils.get_cred_dir()\<close> returns;
  \<^item> \<open>authorization_url\<close>: \<^verbatim>\<open>OAuth2Session(client_id, redirect_uri, scope).authorization_url(url, resource)\<close>,
    giving the URL to redirect to and the fresh state;
  \<^item> \<open>callback_state\<close>: the \<^verbatim>\<open>state\<close> query parameter the OAuth library reads from an
    authorization response URL;
  \<^item> \<open>token_endpoint\<close>: the provider's answer to the token request for a token URL and an
    authorization response (\<open>None\<close>: the provider rejects the exchange);
  \<^item> \<open>user_endpoint\<close>: the answer of \<^verbatim>\<open>oauth.get(url)\<close>; \<open>Body None\<close> is a body that is
    not JSON, for which \<^verbatim>\<open>.json()\<close> raises \<^verbatim>\<open>ValueError\<close>;
  \<^item> \<open>makedirs_fails\<close>, \<open>mkstemp_fails\<close>, \<open>rename_fails\<close>: whether the operating system
    refuses to create the directory, the n-th temporary file, or to rename onto a path.
\<close>

record env =
  cred_dir :: string
  authorization_url ::
    "string \<Rightarrow> string \<Rightarrow> string list option \<Rightarrow> string \<Rightarrow> string option \<Rightarrow> string \<times> string"
  callback_state :: "string \<Rightarrow> string option"
  token_endpoint :: "string \<Rightarrow> string \<Rightarrow> (string \<times> json) list option"
  user_endpoint :: "string \<Rightarrow> http_result"
  makedirs_fails :: "string \<Rightarrow> bool"
  mkstemp_fails :: "nat \<Rightarrow> bool"
  rename_fails :: "string \<Rightarrow> bool"

definition emit :: "event \<Rightarrow> world \<Rightarrow> world" where
  "emit e w = w\<lparr>trace := trace w @ [e]\<rparr>"


section \<open>Provider names and the key file\<close>

text \<open>\<^verbatim>\<open>get_provider_str\<close>: \<^verbatim>\<open>' '.join((provider, handle)).rstrip(' ')\<close>.\<close>

definition get_provider_str :: "string \<Rightarrow> string \<Rightarrow> string" where
  "get_provider_str provider handle = rstrip_chars '' '' (provider @ '' '' @ handle)"

text \<open>\<^verbatim>\<open>ad.get(name, default)\<close>.\<close>

definition ad_get :: "classad \<Rightarrow> string \<Rightarrow> string \<Rightarrow> string" where
  "ad_get ad name dflt = (case map_of ad name of None \<Rightarrow> dflt | Some v \<Rightarrow> v)"

text \<open>The list comprehension \<^verbatim>\<open>[s.rstrip().lstrip() for s in scopes.split(',')]\<close>.\<close>

definition split_scopes :: "string \<Rightarrow> string list" where
  "split_scopes scopes = map (\<lambda>s. lstrip (rstrip s)) (split_on CHR '','' scopes)"

text \<open>\<^verbatim>\<open>get_provider_str(ad['Provider'], ad.get('Handle', ''))\<close>, the name under which a
  ClassAd is known; \<open>None\<close> when the ad has no \<^verbatim>\<open>Provider\<close>, where the expression
  raises \<^verbatim>\<open>KeyError\<close>.\<close>

definition ad_provider :: "classad \<Rightarrow> string option" where
  "ad_provider ad =
     map_option (\<lambda>p. get_provider_str p (ad_get ad ''Handle'' [])) (map_of ad ''Provider'')"

text \<open>The loop of \<^verbatim>\<open>get_provider_ad\<close> over the ClassAds of the key file: the first ad whose
  provider string is the wanted one; the \<^verbatim>\<open>else\<close> branch of the loop raises.\<close>

fun find_provider_ad :: "string \<Rightarrow> string \<Rightarrow> classad list \<Rightarrow> error + classad" where
  "find_provider_ad provider path [] = Inl (ProviderNotInKeyFile provider path)"
| "find_provider_ad provider path (ad # ads) =
     (case ad_provider ad of
        None \<Rightarrow> Inl (KeyError ''Provider'')
      | Some name \<Rightarrow>
          if name = provider then Inr ad else find_provider_ad provider path ads)"

definition get_provider_ad :: "string \<Rightarrow> string \<Rightarrow> world \<Rightarrow> (error + classad) \<times> world" where
  "get_provider_ad provider path w =
     (let w1 = emit (PathExists path) w
      in (case key_files w path of
            None \<Rightarrow> (Inl (KeyFileDoesntExist path), w1)
          | Some ads \<Rightarrow> (find_provider_ad provider path ads, emit (OpenFile path) w1)))"


section \<open>The key page: a new session from a key file\<close>

text \<open>The dictionary the loop of \<^verbatim>\<open>key\<close> builds for one ClassAd.\<close>

definition new_provider_session :: "classad \<Rightarrow> provider_session" where
  "new_provider_session ad =
     \<lparr>plogged_in = False,
      requested_scopes = map_option split_scopes (map_of ad ''Scopes''),
      requested_resource = map_of ad ''Audience'',
      state = None,
      username = None\<rparr>"

text \<open>The \<^verbatim>\<open>for provider_ad in classad.parseAds(key_file)\<close> loop: assigning to
  \<^verbatim>\<open>session_dict['providers'][provider]\<close> replaces an entry of the same name where it
  stands and appends a new name at the end.\<close>

fun key_loop ::
  "classad list \<Rightarrow> (string \<times> provider_session) list \<Rightarrow> error + (string \<times> provider_session) list"
where
  "key_loop [] ps = Inr ps"
| "key_loop (ad # ads) ps =
     (case ad_provider ad of
        None \<Rightarrow> Inl (KeyError ''Provider'')
      | Some provider \<Rightarrow>
          key_loop ads (AList.update provider (new_provider_session ad) ps))"

text \<open>
  Lines 153-173 of \<^verbatim>\<open>key\<close>: the dictionary \<^verbatim>\<open>session_dict\<close> for the ClassAds of the
  key file. After the loop \<^verbatim>\<open>provider_ad\<close> is the last ClassAd of the file, and unbound
  when the file has none.
\<close>

definition session_dict :: "string \<Rightarrow> classad list \<Rightarrow> error + session" where
  "session_dict path ads =
     (case key_loop ads [] of
        Inl e \<Rightarrow> Inl e
      | Inr ps \<Rightarrow>
          (if ads = [] then Inl (UnboundLocalError ''provider_ad'')
           else (case map_of (last ads) ''LocalUser'' of
                   None \<Rightarrow> Inl (KeyError ''LocalUser'')
                 | Some u \<Rightarrow>
                     Inr \<lparr>providers = ps, logged_in = False, key_path = path,
                          local_username = u, outgoing_provider = None\<rparr>)))"

text \<open>
  \<^verbatim>\<open>key(key)\<close>. Line 175, \<^verbatim>\<open>session = session_dict\<close>, assigns to the name
  \<^verbatim>\<open>session\<close> in the body of the function, which makes it a local variable there: the
  Flask session of the \<open>world\<close> is not written, and the dictionary is gone when the
  function returns. The result is the page, \<^verbatim>\<open>render_template('index.html')\<close>, given by
  the name of its template.
\<close>

definition key :: "env \<Rightarrow> string \<Rightarrow> world \<Rightarrow> (error + string) \<times> world" where
  "key E k w =
     (if \<not> re_match_hex k then (Inl (KeyIdNotValid k), w)
      else
        (let path = path_join (cred_dir E) k;
             w1 = emit (PathExists path) w
         in (case key_files w path of
               None \<Rightarrow> (Inl (KeyFileDoesntExist path), w1)
             | Some ads \<Rightarrow>
                 (let w2 = emit (OpenFile path) w1
                  in (case session_dict path ads of
                        Inl e \<Rightarrow> (Inl e, w2)
                      | Inr session \<Rightarrow> (Inr ''index.html'', w2))))))"


section \<open>Sequencing statements that can raise\<close>

text \<open>A statement works on the \<open>world\<close> and either raises or yields a value;
  \<open>and_then\<close> runs the rest of the block unless the statement raised.\<close>

definition and_then ::
  "(world \<Rightarrow> (error + 'a) \<times> world) \<Rightarrow> ('a \<Rightarrow> world \<Rightarrow> (error + 'b) \<times> world) \<Rightarrow>
   world \<Rightarrow> (error + 'b) \<times> world"
where
  "and_then m f w = (case m w of (Inl e, w') \<Rightarrow> (Inl e, w') | (Inr x, w') \<Rightarrow> f x w')"

definition raise :: "error \<Rightarrow> world \<Rightarrow> (error + 'a) \<times> world" where
  "raise e w = (Inl e, w)"

definition return :: "'a \<Rightarrow> world \<Rightarrow> (error + 'a) \<times> world" where
  "return x w = (Inr x, w)"

text \<open>\<^verbatim>\<open>provider_ad[name]\<close>: a missing attribute raises \<^verbatim>\<open>KeyError\<close>.\<close>

definition ad_item :: "classad \<Rightarrow> string \<Rightarrow> world \<Rightarrow> (error + string) \<times> world" where
  "ad_item ad name w =
     (case map_of ad name of None \<Rightarrow> (Inl (KeyError name), w) | Some v \<Rightarrow> (Inr v, w))"

text \<open>Updates of the Flask session in the \<open>world\<close>.\<close>

definition modify_session :: "(session \<Rightarrow> session) \<Rightarrow> world \<Rightarrow> world" where
  "modify_session f w = w\<lparr>flask_session := f (flask_session w)\<rparr>"

text \<open>The session with the entry of one provider changed.\<close>

definition modify_provider ::
  "string \<Rightarrow> (provider_session \<Rightarrow> provider_session) \<Rightarrow> world \<Rightarrow> world" where
  "modify_provider provider f w =
     modify_session (\<lambda>s. s\<lparr>providers := AList.map_entry provider f (providers s)\<rparr>) w"

text \<open>\<^verbatim>\<open>session['providers'][provider][field] = value\<close>: a provider that is not in the
  dictionary raises \<^verbatim>\<open>KeyError\<close>.\<close>

definition set_provider_item ::
  "string \<Rightarrow> (provider_session \<Rightarrow> provider_session) \<Rightarrow> world \<Rightarrow> (error + unit) \<times> world" where
  "set_provider_item provider f w =
     (if provider \<in> fst ` set (providers (flask_session w))
      then (Inr (), modify_provider provider f w)
      else (Inl (KeyError provider), w))"


section \<open>Starting an authorization: \<^verbatim>\<open>oauth_login\<close>\<close>

definition oauth_login :: "env \<Rightarrow> string \<Rightarrow> world \<Rightarrow> (error + string) \<times> world" where
  "oauth_login E provider w =
     (if provider \<notin> fst ` set (providers (flask_session w))
      then (Inl (ProviderNotInList provider), w)
      else
        and_then (get_provider_ad provider (key_path (flask_session w))) (\<lambda>provider_ad.
        and_then (ad_item provider_ad ''ClientId'') (\<lambda>client_id.
        and_then (ad_item provider_ad ''ReturnUrl'') (\<lambda>redirect_uri.
        and_then (ad_item provider_ad ''AuthorizationUrl'') (\<lambda>url.
          (let scope = map_option split_scopes (map_of provider_ad ''Scopes'');
               resource = map_of provider_ad ''Audience'';
               (auth_url, st) = authorization_url E client_id redirect_uri scope url resource
           in and_then (set_provider_item provider (\<lambda>ps. ps\<lparr>state := Some st\<rparr>)) (\<lambda>_. (\<lambda>w2.
                (Inr auth_url,
                 modify_session (\<lambda>s. s\<lparr>outgoing_provider := Some provider\<rparr>) w2)))))))) w)"


section \<open>Returning from the provider: \<^verbatim>\<open>oauth_return\<close>\<close>

text \<open>
  Modelled from the spec: \<^verbatim>\<open>OAuth2Session.fetch_token\<close> of the OAuth library, which is not
  part of the module. The session object was made with the stored state; the call
  "fails with CsrfMismatchError if callbackUrl's embedded state does not equal the stored
  csrfState -- this check must happen before any network call", then "performs the
  authorization-code-for-token exchange against tokenUrl ... via POST" and "fails with
  TokenExchangeError if the provider rejects the exchange".
\<close>

definition fetch_token ::
  "env \<Rightarrow> string \<Rightarrow> string \<Rightarrow> string \<Rightarrow> world \<Rightarrow> (error + (string \<times> json) list) \<times> world"
where
  "fetch_token E st token_url authorization_response w =
     (if callback_state E authorization_response \<noteq> Some st then (Inl CsrfMismatchError, w)
      else
        (let w1 = emit (HttpPost token_url) w
         in (case token_endpoint E token_url authorization_response of
               None \<Rightarrow> (Inl TokenExchangeError, w1)
             | Some token \<Rightarrow> (Inr token, w1))))"

text \<open>Line 236: \<^verbatim>\<open>session.pop('outgoing_provider', get_provider_str(provider, ''))\<close>.\<close>

definition pop_outgoing_provider :: "string \<Rightarrow> world \<Rightarrow> (error + string) \<times> world" where
  "pop_outgoing_provider provider w =
     (Inr (case outgoing_provider (flask_session w) of
             Some p \<Rightarrow> p
           | None \<Rightarrow> get_provider_str provider []),
      modify_session (\<lambda>s. s\<lparr>outgoing_provider := None\<rparr>) w)"

text \<open>Lines 245 and 249-252: the stored state of the provider, and the request URL with
  a leading \<^verbatim>\<open>http://\<close> turned into \<^verbatim>\<open>https://\<close>.\<close>

definition stored_state :: "string \<Rightarrow> world \<Rightarrow> (error + string) \<times> world" where
  "stored_state provider w =
     (case map_of (providers (flask_session w)) provider of
        None \<Rightarrow> (Inl (KeyError provider), w)
      | Some ps \<Rightarrow>
          (case state ps of None \<Rightarrow> (Inl (KeyError ''state''), w) | Some st \<Rightarrow> (Inr st, w)))"

definition updated_url :: "string \<Rightarrow> string" where
  "updated_url url =
     (if startswith url ''http://'' then replace_first ''http://'' ''https://'' url else url)"

text \<open>Lines 242-261: the token exchange. The result carries what the rest of the function
  uses: client id, client secret, token URL and the token.\<close>

definition exchange ::
  "env \<Rightarrow> string \<Rightarrow> classad \<Rightarrow> string \<Rightarrow> world \<Rightarrow>
   (error + string \<times> string \<times> string \<times> (string \<times> json) list) \<times> world"
where
  "exchange E provider provider_ad url =
     and_then (ad_item provider_ad ''ClientId'') (\<lambda>client_id.
     and_then (ad_item provider_ad ''ReturnUrl'') (\<lambda>redirect_uri.
     and_then (stored_state provider) (\<lambda>st.
     and_then (ad_item provider_ad ''ClientSecret'') (\<lambda>client_secret.
     and_then (ad_item provider_ad ''TokenUrl'') (\<lambda>token_url.
     and_then (fetch_token E st token_url (updated_url url)) (\<lambda>token.
     return (client_id, client_secret, token_url, token)))))))"

text \<open>\<^verbatim>\<open>name in user_info\<close> and \<^verbatim>\<open>user_info[name]\<close> for a decoded JSON value: a
  dictionary looks the key up, a list compares its elements, a string searches a
  substring and cannot be indexed by a string, any other value raises \<^verbatim>\<open>TypeError\<close>.\<close>

fun py_in :: "string \<Rightarrow> json \<Rightarrow> error + bool" where
  "py_in name (JObj kvs) = Inr (name \<in> fst ` set kvs)"
| "py_in name (JArr xs) = Inr (JStr name \<in> set xs)"
| "py_in name (JStr s) = Inr (is_substring name s)"
| "py_in name v = Inl TypeError"

fun py_getitem :: "json \<Rightarrow> string \<Rightarrow> error + json" where
  "py_getitem (JObj kvs) name =
     (case map_of kvs name of None \<Rightarrow> Inl (KeyError name) | Some v \<Rightarrow> Inr v)"
| "py_getitem v name = Inl TypeError"

text \<open>Lines 268-273: the user name in the decoded answer of the identity endpoint.\<close>

definition username_of :: "json \<Rightarrow> error + json" where
  "username_of user_info =
     (case py_in ''login'' user_info of
        Inl e \<Rightarrow> Inl e
      | Inr True \<Rightarrow> py_getitem user_info ''login''
      | Inr False \<Rightarrow>
          (case py_in ''sub'' user_info of
             Inl e \<Rightarrow> Inl e
           | Inr True \<Rightarrow> py_getitem user_info ''sub''
           | Inr False \<Rightarrow> Inr (JStr ''Unknown'')))"

text \<open>Lines 265-275: the \<^verbatim>\<open>try\<close> block around the identity request. Only
  \<^verbatim>\<open>ValueError\<close>, which \<^verbatim>\<open>.json()\<close> raises for a body that is not JSON, is handled.\<close>

definition get_user_info :: "env \<Rightarrow> string \<Rightarrow> classad \<Rightarrow> world \<Rightarrow> (error + unit) \<times> world" where
  "get_user_info E provider provider_ad =
     and_then (ad_item provider_ad ''UserUrl'') (\<lambda>user_url. (\<lambda>w.
       (let w1 = emit (HttpGet user_url) w
        in (case user_endpoint E user_url of
              TransportError \<Rightarrow> (Inl ConnectionError, w1)
            | Body None \<Rightarrow>
                set_provider_item provider (\<lambda>ps. ps\<lparr>username := Some (JStr ''Unknown'')\<rparr>) w1
            | Body (Some user_info) \<Rightarrow>
                (case username_of user_info of
                   Inl e \<Rightarrow> (Inl e, w1)
                 | Inr name \<Rightarrow>
                     set_provider_item provider (\<lambda>ps. ps\<lparr>username := Some name\<rparr>) w1)))))"

text \<open>Lines 277-296: the token without its refresh token, the refresh token dictionary
  and the metadata dictionary.\<close>

definition split_refresh_token ::
  "(string \<times> json) list \<Rightarrow> string \<Rightarrow> string \<Rightarrow> string \<Rightarrow> json \<times> json \<times> json" where
  "split_refresh_token token client_id client_secret token_url =
     (let (token', refresh_token_string, use_refresh_token) =
            (case map_of token ''refresh_token'' of
               Some v \<Rightarrow> (AList.delete ''refresh_token'' token, v, True)
             | None \<Rightarrow> (token, JStr [], False));
          refresh_token = JObj [(''refresh_token'', refresh_token_string)];
          metadata = JObj [(''client_id'', JStr client_id),
                           (''client_secret'', JStr client_secret),
                           (''token_url'', JStr token_url),
                           (''use_refresh_token'', JBool use_refresh_token)]
      in (JObj token', refresh_token, metadata))"


text \<open>\<^verbatim>\<open>os.makedirs\<close>, \<^verbatim>\<open>tempfile.mkstemp(dir = ...)\<close> and \<^verbatim>\<open>json.dump\<close> into the
  temporary file.\<close>

definition makedirs :: "env \<Rightarrow> string \<Rightarrow> world \<Rightarrow> (error + unit) \<times> world" where
  "makedirs E dir w =
     (let w1 = emit (MakeDirs dir) w
      in if makedirs_fails E dir then (Inl OSError, w1)
         else (Inr (), w1\<lparr>directories := insert dir (directories w1)\<rparr>))"

definition mkstemp :: "env \<Rightarrow> string \<Rightarrow> world \<Rightarrow> (error + nat) \<times> world" where
  "mkstemp E dir w =
     (let n = temp_count w;
          w1 = emit (MkStemp dir) w
      in if mkstemp_fails E n then (Inl OSError, w1)
         else (Inr n, w1\<lparr>temp_files := (temp_files w1)(n \<mapsto> Empty), temp_count := Suc n\<rparr>))"

definition json_dump :: "json \<Rightarrow> nat \<Rightarrow> world \<Rightarrow> (error + unit) \<times> world" where
  "json_dump v tmp w = (Inr (), w\<lparr>temp_files := (temp_files w)(tmp \<mapsto> Dumped v)\<rparr>)"

text \<open>
  Modelled from the spec: \<^verbatim>\<open>credmon.utils.atomic_rename\<close>, which is not part of the
  module. It must "atomically replace the destination with the temporary file
  (rename-based swap ...)": the destination gets the contents of the temporary file,
  which is gone afterwards; a rename the operating system refuses raises \<^verbatim>\<open>OSError\<close>
  and changes no file.
\<close>

definition atomic_rename :: "env \<Rightarrow> nat \<Rightarrow> string \<Rightarrow> world \<Rightarrow> (error + unit) \<times> world" where
  "atomic_rename E tmp dst w =
     (let w1 = emit (Rename tmp dst) w
      in (case temp_files w tmp of
            None \<Rightarrow> (Inl OSError, w1)
          | Some c \<Rightarrow>
              if rename_fails E dst then (Inl OSError, w1)
              else (Inr (), w1\<lparr>cred_files := (cred_files w1)(dst \<mapsto> c),
                                temp_files := (temp_files w1)(tmp := None)\<rparr>)))"

text \<open>
  \<^verbatim>\<open>LoggerWriter.write\<close>, which the module installs as \<^verbatim>\<open>sys.stdout\<close> and
  \<^verbatim>\<open>sys.stderr\<close>: \<^verbatim>\<open>if message != '\n': self.level(message.rstrip())\<close>. A string is
  handed to the logger, whose output is not part of the \<open>world\<close>; for the same reason the
  \<^verbatim>\<open>print\<close> calls of the handlers, which write strings, are left out. An exception
  object is not equal to \<^verbatim>\<open>'\n'\<close> and has no attribute \<^verbatim>\<open>rstrip\<close>, so the call raises
  \<^verbatim>\<open>AttributeError\<close>.
\<close>

datatype pyobj = PyStr string | PyExc error

definition LoggerWriter_write :: "pyobj \<Rightarrow> world \<Rightarrow> (error + unit) \<times> world" where
  "LoggerWriter_write message w =
     (case message of
        PyStr s \<Rightarrow> (Inr (), w)
      | PyExc e \<Rightarrow> (Inl AttributeError, w))"

text \<open>Lines 324-330: the three renames in one \<^verbatim>\<open>try\<close> block, whose handler for
  \<^verbatim>\<open>OSError\<close> is \<^verbatim>\<open>sys.stderr.write(e)\<close>. Every error of \<open>atomic_rename\<close> is an
  \<^verbatim>\<open>OSError\<close>.\<close>

definition rename_token_files ::
  "env \<Rightarrow> nat \<times> string \<Rightarrow> nat \<times> string \<Rightarrow> nat \<times> string \<Rightarrow> world \<Rightarrow> (error + unit) \<times> world"
where
  "rename_token_files E access refresh metadata w =
     (case and_then (atomic_rename E (fst access) (snd access)) (\<lambda>_.
           and_then (atomic_rename E (fst refresh) (snd refresh)) (\<lambda>_.
           atomic_rename E (fst metadata) (snd metadata))) w of
        (Inl e, w') \<Rightarrow> LoggerWriter_write (PyExc e) w'
      | (Inr u, w') \<Rightarrow> (Inr (), w'))"

text \<open>Lines 298-330: writing the three files. The handler of the first \<^verbatim>\<open>mkstemp\<close>
  prints and raises the error again, as an unhandled one of the other two does.\<close>

definition write_token_files ::
  "env \<Rightarrow> string \<Rightarrow> json \<Rightarrow> json \<Rightarrow> json \<Rightarrow> world \<Rightarrow> (error + unit) \<times> world" where
  "write_token_files E provider token refresh_token metadata w =
     (let user_cred_dir = path_join (cred_dir E) (local_username (flask_session w));
          name = replace_char CHR '' '' CHR ''_'' provider;
          refresh_token_path = path_join user_cred_dir (name @ ''.top'');
          access_token_path = path_join user_cred_dir (name @ ''.use'');
          metadata_path = path_join user_cred_dir (name @ ''.meta'')
      in
        and_then (\<lambda>w0. (let w1 = emit (IsDir user_cred_dir) w0
                        in if user_cred_dir \<in> directories w0 then (Inr (), w1)
                           else makedirs E user_cred_dir w1)) (\<lambda>_.
        and_then (mkstemp E user_cred_dir) (\<lambda>tmp_access_token.
        and_then (json_dump token tmp_access_token) (\<lambda>_.
        and_then (mkstemp E user_cred_dir) (\<lambda>tmp_refresh_token.
        and_then (json_dump refresh_token tmp_refresh_token) (\<lambda>_.
        and_then (mkstemp E user_cred_dir) (\<lambda>tmp_metadata.
        and_then (json_dump metadata tmp_metadata) (\<lambda>_.
        rename_token_files E (tmp_access_token, access_token_path)
          (tmp_refresh_token, refresh_token_path)
          (tmp_metadata, metadata_path)))))))) w)"

text \<open>The place of a credential file, as lines 300-305 compute it three times:
  the credential directory, the local user, the provider with spaces turned into
  underscores, and the suffix.\<close>

definition cred_path :: "env \<Rightarrow> string \<Rightarrow> string \<Rightarrow> string \<Rightarrow> string" where
  "cred_path E user provider suffix =
     path_join (path_join (cred_dir E) user) (replace_char CHR '' '' CHR ''_'' provider @ suffix)"

text \<open>Lines 332-339: the flag of the provider is set; then
  \<^verbatim>\<open>session['logged_in'] = True\<close> and the loop that sets it to \<^verbatim>\<open>False\<close> at every
  provider that is not logged in.\<close>

fun logged_in_loop :: "(string \<times> provider_session) list \<Rightarrow> bool \<Rightarrow> bool" where
  "logged_in_loop [] flag = flag"
| "logged_in_loop (p # ps) flag =
     logged_in_loop ps (if plogged_in (snd p) = False then False else flag)"

definition mark_logged_in :: "string \<Rightarrow> world \<Rightarrow> (error + unit) \<times> world" where
  "mark_logged_in provider =
     and_then (set_provider_item provider (\<lambda>ps. ps\<lparr>plogged_in := True\<rparr>)) (\<lambda>_. (\<lambda>w1.
       (let w2 = modify_session (\<lambda>s. s\<lparr>logged_in := True\<rparr>) w1;
            w3 = modify_session
                   (\<lambda>s. s\<lparr>logged_in := logged_in_loop (providers s) (logged_in s)\<rparr>) w2
        in (Inr (), w3))))"

text \<open>\<^verbatim>\<open>oauth_return(provider)\<close>, with the request URL as the second argument.\<close>

definition oauth_return :: "env \<Rightarrow> string \<Rightarrow> string \<Rightarrow> world \<Rightarrow> (error + unit) \<times> world" where
  "oauth_return E called_provider url =
     and_then (pop_outgoing_provider called_provider) (\<lambda>provider. (\<lambda>w.
       (if provider \<notin> fst ` set (providers (flask_session w))
        then (Inl (ProviderNotInList provider), w)
        else
          and_then (get_provider_ad provider (key_path (flask_session w))) (\<lambda>provider_ad.
          and_then (exchange E provider provider_ad url) (\<lambda>(client_id, client_secret, token_url, token).
          and_then (get_user_info E provider provider_ad) (\<lambda>_.
            (case split_refresh_token token client_id client_secret token_url of
               (token', refresh_token, metadata) \<Rightarrow>
                 and_then (write_token_files E provider token' refresh_token metadata) (\<lambda>_.
                 mark_logged_in provider))))) w)))"


section \<open>A key file with two providers\<close>

text \<open>
  The scenario the concrete runs below use: the key file \<^verbatim>\<open>/cred/0a\<close> asks for a
  token of \<^verbatim>\<open>github\<close> and one of \<^verbatim>\<open>box\<close> under the handle \<^verbatim>\<open>h\<close>; the two ClassAds
  name different local users. The token endpoint of \<^verbatim>\<open>github\<close> issues a refresh token,
  that of \<^verbatim>\<open>box\<close> does not; the identity endpoint of \<^verbatim>\<open>github\<close> answers with a
  \<^verbatim>\<open>login\<close>, that of \<^verbatim>\<open>box\<close> with a body that is not JSON.
\<close>

definition github_ad :: classad where
  "github_ad =
     [(''Provider'', ''github''), (''ClientId'', ''gid''), (''ClientSecret'', ''gsec''),
      (''AuthorizationUrl'', ''https://gh/auth''), (''TokenUrl'', ''https://gh/token''),
      (''ReturnUrl'', ''https://cm/return/github''), (''UserUrl'', ''https://gh/user''),
      (''Scopes'', ''repo, user''), (''LocalUser'', ''bob'')]"

definition box_ad :: classad where
  "box_ad =
     [(''Provider'', ''box''), (''Handle'', ''h''), (''ClientId'', ''bid''),
      (''ClientSecret'', ''bsec''), (''AuthorizationUrl'', ''https://box/auth''),
      (''TokenUrl'', ''https://box/token''), (''ReturnUrl'', ''https://cm/return/box''),
      (''UserUrl'', ''https://box/user''), (''Audience'', ''aud''), (''LocalUser'', ''alice'')]"

definition demo_env :: env where
  "demo_env =
     \<lparr>cred_dir = ''/cred'',
      authorization_url =
        (\<lambda>client_id redirect_uri scope url resource. (url @ ''?state=s1'', ''s1'')),
      callback_state = (\<lambda>u. if is_substring ''state=s1'' u then Some ''s1'' else None),
      token_endpoint =
        (\<lambda>token_url u.
           if token_url = ''https://gh/token''
           then Some [(''access_token'', JStr ''a1''), (''refresh_token'', JStr ''r1'')]
           else Some [(''access_token'', JStr ''a2'')]),
      user_endpoint =
        (\<lambda>u. if u = ''https://gh/user'' then Body (Some (JObj [(''login'', JStr ''octo'')]))
             else Body None),
      makedirs_fails = (\<lambda>d. False),
      mkstemp_fails = (\<lambda>n. False),
      rename_fails = (\<lambda>p. False)\<rparr>"

definition demo_session :: session where
  "demo_session =
     \<lparr>providers =
        [(''github'', \<lparr>plogged_in = False, requested_scopes = Some [''repo'', ''user''],
                       requested_resource = None, state = None, username = None\<rparr>),
         (''box h'', \<lparr>plogged_in = False, requested_scopes = None,
                      requested_resource = Some ''aud'', state = None, username = None\<rparr>)],
      logged_in = False, key_path = ''/cred/0a'', local_username = ''alice'',
      outgoing_provider = None\<rparr>"

definition demo_world :: world where
  "demo_world =
     \<lparr>flask_session = demo_session,
      key_files = [''/cred/0a'' \<mapsto> [github_ad, box_ad]],
      directories = {''/cred''},
      cred_files = Map.empty,
      temp_files = Map.empty,
      temp_count = 0,
      trace = []\<rparr>"

text \<open>The world after \<^verbatim>\<open>oauth_login\<close> for a provider: its state is stored and it is the
  outgoing provider.\<close>

definition demo_world_login :: "string \<Rightarrow> world" where
  "demo_world_login provider =
     modify_session (\<lambda>s. s\<lparr>outgoing_provider := Some provider\<rparr>)
       (modify_provider provider (\<lambda>ps. ps\<lparr>state := Some ''s1''\<rparr>) demo_world)"

definition demo_url :: string where
  "demo_url = ''http://cm/return/github?code=c&state=s1''"

text \<open>A callback whose state is not the stored one.\<close>

definition demo_forged_url :: string where
  "demo_forged_url = ''http://cm/return/github?code=c&state=s2''"

text \<open>The ClassAd of \<^verbatim>\<open>github\<close> without the attribute \<^verbatim>\<open>UserUrl\<close>.\<close>

definition github_ad_no_user_url :: classad where
  "github_ad_no_user_url = filter (\<lambda>kv. fst kv \<noteq> ''UserUrl'') github_ad"

text \<open>The world of a browser that has not been on a key page: a session that holds no
  provider and no local user.\<close>

definition fresh_session :: session where
  "fresh_session =
     \<lparr>providers = [], logged_in = False, key_path = [], local_username = [],
      outgoing_provider = None\<rparr>"

definition fresh_world :: world where
  "fresh_world = demo_world\<lparr>flask_session := fresh_session\<rparr>"

text \<open>The world in which \<^verbatim>\<open>github\<close> is logged in already and the login for \<^verbatim>\<open>box\<close>
  with the handle \<^verbatim>\<open>h\<close> has begun.\<close>

definition demo_world_second :: world where
  "demo_world_second =
     modify_session (\<lambda>s. s\<lparr>outgoing_provider := Some ''box h''\<rparr>)
       (modify_provider ''box h'' (\<lambda>ps. ps\<lparr>state := Some ''s1''\<rparr>)
          (modify_provider ''github'' (\<lambda>ps. ps\<lparr>plogged_in := True\<rparr>) demo_world))"


section \<open>Basic facts\<close>

lemma and_then_Inr_iff:
  "and_then m f w = (Inr y, w') \<longleftrightarrow> (\<exists>x w1. m w = (Inr x, w1) \<and> f x w1 = (Inr y, w'))"
  by (auto simp: and_then_def split: prod.splits sum.splits)

lemma and_then_Inl_iff:
  "and_then m f w = (Inl e, w') \<longleftrightarrow>
     m w = (Inl e, w') \<or> (\<exists>x w1. m w = (Inr x, w1) \<and> f x w1 = (Inl e, w'))"
  by (auto simp: and_then_def split: prod.splits sum.splits)

lemma re_match_hex_iff: "re_match_hex k \<longleftrightarrow> k \<noteq> [] \<and> is_hex (hd k)"
  by (cases k) (auto simp: re_match_hex_def)

lemma key_loop_error: "key_loop ads ps = Inl e \<Longrightarrow> e = KeyError ''Provider''"
  by (induction ads arbitrary: ps) (auto split: option.splits)

lemma session_dict_error: "session_dict path ads = Inl e \<Longrightarrow> e \<noteq> KeyIdNotValid k"
  by (auto simp: session_dict_def dest: key_loop_error split: sum.splits if_splits option.splits)

lemma logged_in_loop_eq:
  "logged_in_loop ps flag = (flag \<and> (\<forall>p \<in> set ps. plogged_in (snd p)))"
  by (induction ps arbitrary: flag) auto

text \<open>A run of \<^verbatim>\<open>oauth_return\<close> that succeeds went through all of its stages.\<close>

lemma oauth_return_InrD:
  assumes "oauth_return E cp url w = (Inr u, w')"
  shows "\<exists>provider w0 ad w1 cid cs tu token w2 w3 tok' rt md w4.
    pop_outgoing_provider cp w = (Inr provider, w0) \<and>
    provider \<in> fst ` set (providers (flask_session w0)) \<and>
    get_provider_ad provider (key_path (flask_session w0)) w0 = (Inr ad, w1) \<and>
    exchange E provider ad url w1 = (Inr (cid, cs, tu, token), w2) \<and>
    get_user_info E provider ad w2 = (Inr (), w3) \<and>
    split_refresh_token token cid cs tu = (tok', rt, md) \<and>
    write_token_files E provider tok' rt md w3 = (Inr (), w4) \<and>
    mark_logged_in provider w4 = (Inr (), w')"
proof -
  from assms obtain provider w0 where
    p1: "pop_outgoing_provider cp w = (Inr provider, w0)" and
    p2: "provider \<in> fst ` set (providers (flask_session w0))" and
    r1: "and_then (get_provider_ad provider (key_path (flask_session w0))) (\<lambda>provider_ad.
          and_then (exchange E provider provider_ad url) (\<lambda>(client_id, client_secret, token_url, token).
          and_then (get_user_info E provider provider_ad) (\<lambda>_.
            (case split_refresh_token token client_id client_secret token_url of
               (token', refresh_token, metadata) \<Rightarrow>
                 and_then (write_token_files E provider token' refresh_token metadata) (\<lambda>_.
                 mark_logged_in provider))))) w0 = (Inr u, w')"
    unfolding oauth_return_def by (auto simp: and_then_Inr_iff split: if_splits)
  from r1 obtain ad w1 x w2 where
    p3: "get_provider_ad provider (key_path (flask_session w0)) w0 = (Inr ad, w1)" and
    p4: "exchange E provider ad url w1 = (Inr x, w2)" and
    r2: "(case x of (client_id, client_secret, token_url, token) \<Rightarrow>
          and_then (get_user_info E provider ad) (\<lambda>_.
            (case split_refresh_token token client_id client_secret token_url of
               (token', refresh_token, metadata) \<Rightarrow>
                 and_then (write_token_files E provider token' refresh_token metadata) (\<lambda>_.
                 mark_logged_in provider)))) w2 = (Inr u, w')"
    by (auto simp: and_then_Inr_iff)
  obtain cid cs tu token where x: "x = (cid, cs, tu, token)"
    by (cases x) auto
  obtain tok' rt md where sp: "split_refresh_token token cid cs tu = (tok', rt, md)"
    by (cases "split_refresh_token token cid cs tu") auto
  from r2 x sp obtain w3 w4 where
    p5: "get_user_info E provider ad w2 = (Inr (), w3)" and
    p6: "write_token_files E provider tok' rt md w3 = (Inr (), w4)" and
    p7: "mark_logged_in provider w4 = (Inr (), w')"
    by (auto simp: and_then_Inr_iff)
  from p1 p2 p3 p4 p5 p6 p7 x sp show ?thesis
    by blast
qed


text \<open>What the stages of \<^verbatim>\<open>oauth_return\<close> do to the world.\<close>

lemma pop_outgoing_provider_frame:
  "pop_outgoing_provider cp w = (r, w') \<Longrightarrow>
   r = Inr (case outgoing_provider (flask_session w) of
              Some p \<Rightarrow> p | None \<Rightarrow> get_provider_str cp []) \<and>
   w' = modify_session (\<lambda>s. s\<lparr>outgoing_provider := None\<rparr>) w"
  by (auto simp: pop_outgoing_provider_def)

lemma get_provider_ad_Inr:
  "get_provider_ad provider path w = (Inr ad, w') \<Longrightarrow>
   (\<exists>ads. key_files w path = Some ads \<and> find_provider_ad provider path ads = Inr ad) \<and>
   w' = emit (OpenFile path) (emit (PathExists path) w)"
  by (auto simp: get_provider_ad_def Let_def split: option.splits)

lemma exchange_Inr:
  "exchange E provider ad url w = (Inr (cid, cs, tu, token), w') \<Longrightarrow>
   map_of ad ''ClientId'' = Some cid \<and> map_of ad ''ClientSecret'' = Some cs \<and>
   map_of ad ''TokenUrl'' = Some tu \<and> token_endpoint E tu (updated_url url) = Some token \<and>
   (\<exists>ps st. map_of (providers (flask_session w)) provider = Some ps \<and> state ps = Some st \<and>
      callback_state E (updated_url url) = Some st) \<and>
   w' = emit (HttpPost tu) w"
  by (auto simp: exchange_def and_then_Inr_iff ad_item_def stored_state_def fetch_token_def
        return_def Let_def split: option.splits if_splits)

lemma get_user_info_frame:
  "get_user_info E provider ad w = (r, w') \<Longrightarrow>
   local_username (flask_session w') = local_username (flask_session w) \<and>
   cred_files w' = cred_files w"
  by (auto simp: get_user_info_def and_then_def ad_item_def emit_def modify_provider_def
        set_provider_item_def modify_session_def Let_def
        split: option.splits http_result.splits sum.splits if_splits)

lemma mark_logged_in_frame:
  "mark_logged_in provider w = (r, w') \<Longrightarrow> cred_files w' = cred_files w"
  by (auto simp: mark_logged_in_def and_then_def set_provider_item_def modify_provider_def
        modify_session_def Let_def split: if_splits)

lemma mark_logged_in_flag:
  "mark_logged_in provider w = (Inr u, w') \<Longrightarrow>
   logged_in (flask_session w') =
     (\<forall>p \<in> set (providers (flask_session w')). plogged_in (snd p))"
  by (fastforce simp: mark_logged_in_def and_then_def set_provider_item_def modify_session_def
        modify_provider_def logged_in_loop_eq Let_def split: if_splits)

text \<open>The three files of one provider have three different paths.\<close>

lemma path_join_same_prefix:
  assumes "path_join d (n @ s1) = path_join d (n @ s2)"
    and "s1 \<noteq> []" "s2 \<noteq> []" "hd s1 \<noteq> CHR ''/''" "hd s2 \<noteq> CHR ''/''"
  shows "s1 = s2"
proof (cases n)
  case Nil
  with assms show ?thesis
    by (cases s1; cases s2) (auto simp: path_join_def startswith_def split: if_splits)
next
  case (Cons c cs)
  with assms show ?thesis
    by (auto simp: path_join_def startswith_def split: if_splits)
qed

lemma cred_path_suffixes:
  "cred_path E user p ''.use'' \<noteq> cred_path E user p ''.top''"
  "cred_path E user p ''.use'' \<noteq> cred_path E user p ''.meta''"
  "cred_path E user p ''.top'' \<noteq> cred_path E user p ''.meta''"
  unfolding cred_path_def
  by (auto dest!: path_join_same_prefix)

lemmas cred_path_neq = cred_path_suffixes cred_path_suffixes [symmetric]

text \<open>When \<open>write_token_files\<close> returns, each of the three paths holds what was dumped
  for it: a rename that fails never lets the function return.\<close>

lemma write_token_files_Inr:
  assumes "write_token_files E provider tok rt md w = (Inr u, w')"
  shows "cred_files w' (cred_path E (local_username (flask_session w)) provider ''.use'') =
           Some (Dumped tok) \<and>
         cred_files w' (cred_path E (local_username (flask_session w)) provider ''.top'') =
           Some (Dumped rt) \<and>
         cred_files w' (cred_path E (local_username (flask_session w)) provider ''.meta'') =
           Some (Dumped md) \<and>
         flask_session w' = flask_session w"
  using assms cred_path_neq [of E "local_username (flask_session w)" provider]
  unfolding write_token_files_def cred_path_def Let_def
  by (auto simp: and_then_def makedirs_def emit_def mkstemp_def json_dump_def
        rename_token_files_def atomic_rename_def LoggerWriter_write_def Let_def
        split: if_splits)

lemma split_refresh_token_eq:
  "split_refresh_token token cid cs tu =
     (JObj (filter (\<lambda>kv. fst kv \<noteq> ''refresh_token'') token),
      JObj [(''refresh_token'',
             case map_of token ''refresh_token'' of Some v \<Rightarrow> v | None \<Rightarrow> JStr [])],
      JObj [(''client_id'', JStr cid), (''client_secret'', JStr cs), (''token_url'', JStr tu),
            (''use_refresh_token'', JBool (''refresh_token'' \<in> fst ` set token))])"
proof (cases "map_of token ''refresh_token''")
  case None
  then have "''refresh_token'' \<notin> fst ` set token"
    by (simp add: map_of_eq_None_iff)
  moreover from this have "filter (\<lambda>kv. fst kv \<noteq> ''refresh_token'') token = token"
    by (induction token) auto
  ultimately show ?thesis
    using None by (simp add: split_refresh_token_def)
next
  case (Some v)
  then have "''refresh_token'' \<in> fst ` set token"
    by (metis map_of_eq_None_iff option.distinct(1))
  moreover have "AList.delete ''refresh_token'' token =
                 filter (\<lambda>kv. fst kv \<noteq> ''refresh_token'') token"
    by (induction token) (auto simp: AList.delete_eq)
  ultimately show ?thesis
    using Some by (simp add: split_refresh_token_def)
qed

text \<open>More on the stages: what a stage leaves as it is.\<close>

lemma and_then_keeps:
  assumes "\<And>w. g (snd (m w)) = g w" and "\<And>x w. g (snd (f x w)) = g w"
  shows "g (snd (and_then m f w)) = g w"
proof (cases "m w")
  case (Pair r w1)
  from assms(1) [of w] Pair have "g w1 = g w" by simp
  with Pair assms(2) show ?thesis
    by (cases r) (simp_all add: and_then_def)
qed

lemma ad_item_world [simp]: "snd (ad_item ad n w) = w"
  by (simp add: ad_item_def split: option.splits)

lemma get_provider_ad_session [simp]:
  "flask_session (snd (get_provider_ad p path w)) = flask_session w"
  by (simp add: get_provider_ad_def emit_def Let_def split: option.splits)

lemma exchange_session [simp]:
  "flask_session (snd (exchange E p ad url w)) = flask_session w"
  by (simp add: exchange_def and_then_def stored_state_def fetch_token_def return_def emit_def
        Let_def ad_item_def split: option.splits)

lemma get_user_info_outgoing [simp]:
  "outgoing_provider (flask_session (snd (get_user_info E p ad w))) =
   outgoing_provider (flask_session w)"
  by (simp add: get_user_info_def and_then_def ad_item_def emit_def modify_provider_def
        set_provider_item_def modify_session_def Let_def
        split: option.splits http_result.splits sum.splits)

lemma write_token_files_session [simp]:
  "flask_session (snd (write_token_files E p tok rt md w)) = flask_session w"
  unfolding write_token_files_def Let_def
  by (simp add: and_then_def makedirs_def emit_def mkstemp_def json_dump_def
        rename_token_files_def atomic_rename_def LoggerWriter_write_def Let_def
        split: option.splits)

lemma mark_logged_in_outgoing [simp]:
  "outgoing_provider (flask_session (snd (mark_logged_in p w))) =
   outgoing_provider (flask_session w)"
  by (simp add: mark_logged_in_def and_then_def set_provider_item_def modify_provider_def
        modify_session_def Let_def)

lemma oauth_return_pops:
  "outgoing_provider (flask_session (snd (oauth_return E cp url w))) = None"
proof -
  let ?g = "\<lambda>w. outgoing_provider (flask_session w)"
  have rest: "?g (snd (
       (if provider \<notin> fst ` set (providers (flask_session w0))
        then (Inl (ProviderNotInList provider), w0)
        else
          and_then (get_provider_ad provider (key_path (flask_session w0))) (\<lambda>provider_ad.
          and_then (exchange E provider provider_ad url) (\<lambda>(client_id, client_secret, token_url, token).
          and_then (get_user_info E provider provider_ad) (\<lambda>_.
            (case split_refresh_token token client_id client_secret token_url of
               (token', refresh_token, metadata) \<Rightarrow>
                 and_then (write_token_files E provider token' refresh_token metadata) (\<lambda>_.
                 mark_logged_in provider))))) w0))) = ?g w0" for provider w0
    by (auto intro!: and_then_keeps [where g = ?g] simp: split_beta)
  obtain provider w0 where p: "pop_outgoing_provider cp w = (Inr provider, w0)"
    and w0: "?g w0 = None"
    by (simp add: pop_outgoing_provider_def modify_session_def)
  have "?g (snd (oauth_return E cp url w)) = ?g w0"
    unfolding oauth_return_def
    by (subst and_then_def) (simp only: p prod.case sum.case rest)
  with w0 show ?thesis by simp
qed

lemma get_provider_ad_cases:
  "get_provider_ad provider path w = (r, w') \<Longrightarrow>
   (w' = emit (PathExists path) w \<and> r = Inl (KeyFileDoesntExist path) \<and> key_files w path = None) \<or>
   (w' = emit (OpenFile path) (emit (PathExists path) w) \<and>
    (\<exists>ads. key_files w path = Some ads \<and> r = find_provider_ad provider path ads))"
  by (auto simp: get_provider_ad_def Let_def split: option.splits)

lemma exchange_mismatch:
  assumes "map_of (providers (flask_session w)) provider = Some ps"
    and "state ps = Some st"
    and "callback_state E (updated_url url) \<noteq> Some st"
  shows "\<exists>e. exchange E provider ad url w = (Inl e, w) \<and>
           ({''ClientId'', ''ReturnUrl'', ''ClientSecret'', ''TokenUrl''} \<subseteq> fst ` set ad
              \<longrightarrow> e = CsrfMismatchError)"
  using assms
  by (auto simp: exchange_def and_then_def ad_item_def stored_state_def fetch_token_def
        map_of_eq_None_iff split: option.splits)

lemma oauth_return_ignores_called_provider:
  "outgoing_provider (flask_session w) = Some q \<Longrightarrow>
   oauth_return E cp url w = oauth_return E cp' url w"
  by (simp add: oauth_return_def and_then_def pop_outgoing_provider_def)

lemma mark_logged_in_provider:
  assumes "mark_logged_in provider w = (Inr u, w')"
    and "provider \<in> fst ` set (providers (flask_session w))"
  shows "\<exists>ps. map_of (providers (flask_session w')) provider = Some ps \<and> plogged_in ps"
proof -
  from assms(2) obtain ps where ps: "map_of (providers (flask_session w)) provider = Some ps"
    by (metis map_of_eq_None_iff not_Some_eq)
  have "map_of (providers (flask_session w')) provider = Some (ps\<lparr>plogged_in := True\<rparr>)"
    using assms(1) ps
    by (auto simp: mark_logged_in_def and_then_def set_provider_item_def modify_session_def
          modify_provider_def AList.map_of_map_entry Let_def split: if_splits)
  then show ?thesis by simp
qed

lemma oauth_login_Inr:
  assumes "fst (oauth_login E q w) = Inr a"
  shows "outgoing_provider (flask_session (snd (oauth_login E q w))) = Some q"
proof -
  obtain w' where r: "oauth_login E q w = (Inr a, w')"
    using assms by (cases "oauth_login E q w") auto
  then have "outgoing_provider (flask_session w') = Some q"
    unfolding oauth_login_def
    by (auto simp: and_then_Inr_iff set_provider_item_def modify_session_def
          modify_provider_def Let_def split_beta split: if_splits)
  with r show ?thesis by simp
qed

lemma get_provider_str_empty: "get_provider_str cp [] = rstrip_chars '' '' cp"
  by (simp add: get_provider_str_def rstrip_chars_def)

lemma get_provider_str_handle:
  assumes "\<exists>c \<in> set h. c \<noteq> CHR '' ''"
  shows "get_provider_str p h = p @ '' '' @ rstrip_chars '' '' h"
proof -
  from assms have "dropWhile (\<lambda>c. c \<in> set '' '') (rev h) \<noteq> []"
    by (auto simp: dropWhile_eq_Nil_conv)
  then have "dropWhile (\<lambda>c. c \<in> set '' '') (rev h @ '' '' @ rev p) =
        dropWhile (\<lambda>c. c \<in> set '' '') (rev h) @ '' '' @ rev p"
    by (metis dropWhile_append1 dropWhile_eq_Nil_conv)
  then show ?thesis
    by (simp add: get_provider_str_def rstrip_chars_def)
qed

lemma get_provider_str_handle_neq:
  assumes "\<exists>c \<in> set h. c \<noteq> CHR '' ''"
  shows "get_provider_str p h \<noteq> get_provider_str p []"
proof -
  have "length (get_provider_str p []) \<le> length p"
    by (simp add: get_provider_str_empty rstrip_chars_def length_dropWhile_le
          order_trans [OF length_dropWhile_le])
  moreover have "length (get_provider_str p h) > length p"
    by (simp add: get_provider_str_handle [OF assms])
  ultimately show ?thesis by auto
qed

text \<open>The two ways \<^verbatim>\<open>oauth_return\<close> treats the provider it resolved: unknown to
  the session, it is refused at once; on success, its flag is set.\<close>

lemma get_user_info_keys [simp]:
  "fst ` set (providers (flask_session (snd (get_user_info E p ad w)))) =
   fst ` set (providers (flask_session w))"
  by (simp add: get_user_info_def and_then_def ad_item_def emit_def modify_provider_def
        set_provider_item_def modify_session_def Let_def AList.dom_map_entry
        split: option.splits http_result.splits sum.splits)

lemma oauth_return_unknown:
  assumes "provider = (case outgoing_provider (flask_session w) of
                         Some p \<Rightarrow> p | None \<Rightarrow> get_provider_str called_provider [])"
    and "provider \<notin> fst ` set (providers (flask_session w))"
  shows "oauth_return E called_provider url w =
     (Inl (ProviderNotInList provider), modify_session (\<lambda>s. s\<lparr>outgoing_provider := None\<rparr>) w)"
  using assms
  by (simp add: oauth_return_def and_then_def pop_outgoing_provider_def modify_session_def)

lemma oauth_return_marks_provider:
  assumes "provider = (case outgoing_provider (flask_session w) of
                         Some p \<Rightarrow> p | None \<Rightarrow> get_provider_str called_provider [])"
    and "fst (oauth_return E called_provider url w) = Inr u"
  shows "\<exists>ps. map_of (providers (flask_session (snd (oauth_return E called_provider url w))))
                 provider = Some ps \<and> plogged_in ps"
proof -
  obtain w' where r: "oauth_return E called_provider url w = (Inr u, w')"
    using assms(2) by (cases "oauth_return E called_provider url w") auto
  from oauth_return_InrD [OF r]
  obtain provider' w0 ad w1 cid cs tu token w2 w3 tok' rt md w4 where
    p1: "pop_outgoing_provider called_provider w = (Inr provider', w0)" and
    p2: "provider' \<in> fst ` set (providers (flask_session w0))" and
    p3: "get_provider_ad provider' (key_path (flask_session w0)) w0 = (Inr ad, w1)" and
    p4: "exchange E provider' ad url w1 = (Inr (cid, cs, tu, token), w2)" and
    p5: "get_user_info E provider' ad w2 = (Inr (), w3)" and
    p6: "write_token_files E provider' tok' rt md w3 = (Inr (), w4)" and
    p7: "mark_logged_in provider' w4 = (Inr (), w')"
    by blast
  from pop_outgoing_provider_frame [OF p1] assms(1) have eq: "provider' = provider"
    by simp
  have "flask_session w1 = flask_session w0"
    using get_provider_ad_session [of provider' "key_path (flask_session w0)" w0] p3 by simp
  moreover have "flask_session w2 = flask_session w1"
    using exchange_session [of E provider' ad url w1] p4 by simp
  moreover have "fst ` set (providers (flask_session w3)) = fst ` set (providers (flask_session w2))"
    using get_user_info_keys [of E provider' ad w2] p5 by simp
  moreover have "flask_session w4 = flask_session w3"
    using write_token_files_session [of E provider' tok' rt md w3] p6 by simp
  ultimately have "provider' \<in> fst ` set (providers (flask_session w4))"
    using p2 by simp
  from mark_logged_in_provider [OF p7 this] r eq show ?thesis
    by simp
qed

text \<open>The upgrade of the request URL touches the scheme only.\<close>

lemma replace_first_prefix:
  "s \<noteq> [] \<Longrightarrow> take (length old) s = old \<Longrightarrow>
   replace_first old new s = new @ drop (length old) s"
  by (cases s) simp_all

lemma updated_url_cases:
  "updated_url url = url \<or>
   (\<exists>rest. url = ''http://'' @ rest \<and> updated_url url = ''https://'' @ rest)"
proof (cases "startswith url ''http://''")
  case False
  then show ?thesis by (simp add: updated_url_def)
next
  case True
  then have t: "take (length ''http://'') url = ''http://''"
    by (simp add: startswith_def)
  then have n: "url \<noteq> []" by auto
  have "replace_first ''http://'' ''https://'' url =
          ''https://'' @ drop (length ''http://'') url"
    by (rule replace_first_prefix [OF n t])
  moreover have "url = ''http://'' @ drop (length ''http://'') url"
    by (metis append_take_drop_id t)
  ultimately show ?thesis
    using True unfolding updated_url_def by (simp only: if_True) blast
qed

text \<open>A rename that fails makes the handler of the \<^verbatim>\<open>try\<close> block raise.\<close>

lemma rename_token_files_raises:
  assumes "rename_fails E (snd a) \<or> rename_fails E (snd r) \<or> rename_fails E (snd m)"
  shows "fst (rename_token_files E a r m w) = Inl AttributeError"
  using assms
  by (auto simp: rename_token_files_def and_then_def atomic_rename_def LoggerWriter_write_def
        Let_def split: option.splits)

text \<open>The loop of \<^verbatim>\<open>key\<close>.\<close>

lemma find_snoc:
  "find P (xs @ [a]) = (case find P xs of Some x \<Rightarrow> Some x | None \<Rightarrow> if P a then Some a else None)"
  by (induction xs) auto

lemma key_loop_props:
  assumes "\<forall>ad \<in> set ads. ad_provider ad \<noteq> None" and "distinct (map fst ps)"
  shows "\<exists>ps'. key_loop ads ps = Inr ps' \<and> distinct (map fst ps') \<and>
           fst ` set ps' = fst ` set ps \<union> {n. \<exists>ad \<in> set ads. ad_provider ad = Some n} \<and>
           (\<forall>n. map_of ps' n =
              (case find (\<lambda>ad. ad_provider ad = Some n) (rev ads) of
                 Some ad \<Rightarrow> Some (new_provider_session ad)
               | None \<Rightarrow> map_of ps n))"
  using assms
proof (induction ads arbitrary: ps)
  case Nil
  then show ?case by simp
next
  case (Cons ad ads)
  from Cons.prems obtain name where name: "ad_provider ad = Some name"
    by auto
  let ?ps = "AList.update name (new_provider_session ad) ps"
  have d: "distinct (map fst ?ps)"
    using Cons.prems(2) by (simp add: AList.distinct_update)
  from Cons.IH [OF _ d] Cons.prems(1) obtain ps' where
    ps': "key_loop ads ?ps = Inr ps'" "distinct (map fst ps')"
      "fst ` set ps' = fst ` set ?ps \<union> {n. \<exists>ad \<in> set ads. ad_provider ad = Some n}"
      "\<forall>n. map_of ps' n =
              (case find (\<lambda>ad. ad_provider ad = Some n) (rev ads) of
                 Some ad \<Rightarrow> Some (new_provider_session ad)
               | None \<Rightarrow> map_of ?ps n)"
    by auto
  have "key_loop (ad # ads) ps = Inr ps'"
    using name ps'(1) by simp
  moreover have "fst ` set ps' = fst ` set ps \<union> {n. \<exists>a \<in> set (ad # ads). ad_provider a = Some n}"
    using ps'(3) name by (auto simp: AList.dom_update)
  moreover have "map_of ps' n =
              (case find (\<lambda>a. ad_provider a = Some n) (rev (ad # ads)) of
                 Some a \<Rightarrow> Some (new_provider_session a)
               | None \<Rightarrow> map_of ps n)" for n
    using ps'(4) name by (auto simp: find_snoc AList.update_conv' split: option.splits)
  ultimately show ?case
    using ps'(2) by blast
qed

lemma key_loop_empty:
  assumes "\<forall>ad \<in> set ads. ad_provider ad \<noteq> None"
  shows "\<exists>ps'. key_loop ads [] = Inr ps' \<and> distinct (map fst ps') \<and>
           fst ` set ps' = {n. \<exists>ad \<in> set ads. ad_provider ad = Some n} \<and>
           (\<forall>n. map_of ps' n =
              map_option new_provider_session (find (\<lambda>ad. ad_provider ad = Some n) (rev ads)))"
proof -
  have "(case x of Some ad \<Rightarrow> Some (new_provider_session ad) | None \<Rightarrow> map_of [] n) =
        map_option new_provider_session x" for x :: "classad option" and n :: string
    by (cases x) simp_all
  with key_loop_props [OF assms, of "[]"] show ?thesis
    by simp
qed

lemma py_in_obj: "py_in name (JObj kvs) = Inr (map_of kvs name \<noteq> None)"
  by (simp add: map_of_eq_None_iff)

lemma username_of_obj:
  "username_of (JObj kvs) =
     Inr (case map_of kvs ''login'' of
            Some v \<Rightarrow> v
          | None \<Rightarrow> (case map_of kvs ''sub'' of Some v \<Rightarrow> v | None \<Rightarrow> JStr ''Unknown''))"
  unfolding username_of_def py_in_obj
  by (cases "map_of kvs ''login''"; cases "map_of kvs ''sub''") simp_all

text \<open>The user name the identity step stores when the endpoint answers with a JSON
  object or with a body that is not JSON.\<close>

lemma get_user_info_policy:
  assumes "provider \<in> fst ` set (providers (flask_session w))"
    and "map_of ad ''UserUrl'' = Some user_url"
    and "user_endpoint E user_url = Body body"
    and "body = None \<or> body = Some (JObj kvs)"
  shows "get_user_info E provider ad w =
     (Inr (),
      modify_provider provider
        (\<lambda>ps. ps\<lparr>username := Some
           (if body = None then JStr ''Unknown''
            else (case map_of kvs ''login'' of
                    Some v \<Rightarrow> v
                  | None \<Rightarrow> (case map_of kvs ''sub'' of
                               Some v \<Rightarrow> v
                             | None \<Rightarrow> JStr ''Unknown'')))\<rparr>)
        (emit (HttpGet user_url) w))"
proof -
  have "provider \<in> fst ` set (providers (flask_session (emit (HttpGet user_url) w)))"
    using assms(1) by (simp add: emit_def)
  then have item: "set_provider_item provider f (emit (HttpGet user_url) w) =
      (Inr (), modify_provider provider f (emit (HttpGet user_url) w))" for f
    by (simp add: set_provider_item_def)
  show ?thesis
    using assms(2-4)
    by (auto simp: get_user_info_def and_then_def ad_item_def username_of_obj Let_def item)
qed

text \<open>The dictionary that \<^verbatim>\<open>key\<close> builds, and that it does not keep.\<close>

lemma session_dict_valid:
  assumes "ads \<noteq> []"
    and "\<forall>ad \<in> set ads. map_of ad ''Provider'' \<noteq> None"
    and "map_of (last ads) ''LocalUser'' = Some u"
  shows "\<exists>s. session_dict path ads = Inr s \<and> local_username s = u \<and>
           distinct (map fst (providers s)) \<and>
           fst ` set (providers s) = {n. \<exists>ad \<in> set ads. ad_provider ad = Some n} \<and>
           (\<forall>n. map_of (providers s) n =
              map_option new_provider_session
                (find (\<lambda>ad. ad_provider ad = Some n) (rev ads)))"
proof -
  from assms(2) have "\<forall>ad \<in> set ads. ad_provider ad \<noteq> None"
    by (simp add: ad_provider_def)
  from key_loop_empty [OF this] obtain ps' where
    "key_loop ads [] = Inr ps'" "distinct (map fst ps')"
    "fst ` set ps' = {n. \<exists>ad \<in> set ads. ad_provider ad = Some n}"
    "\<forall>n. map_of ps' n =
       map_option new_provider_session (find (\<lambda>ad. ad_provider ad = Some n) (rev ads))"
    by blast
  with assms(1,3) show ?thesis
    by (simp add: session_dict_def)
qed

text \<open>The login flags of the providers through the stages.\<close>

lemma map_entry_flags:
  assumes "\<And>v. g (f v) = h (g v)"
  shows "map (\<lambda>p. (fst p, g (snd p))) (AList.map_entry k f xs) =
         AList.map_entry k h (map (\<lambda>p. (fst p, g (snd p))) xs)"
  using assms by (induction xs) auto

lemma map_entry_ident: "AList.map_entry k (\<lambda>v. v) xs = xs"
  by (induction xs) auto

lemma ball_map_entry_True:
  "distinct (map fst xs) \<Longrightarrow>
   (\<forall>q \<in> set (AList.map_entry k (\<lambda>_. True) xs). snd q) = (\<forall>q \<in> set xs. fst q \<noteq> k \<longrightarrow> snd q)"
  by (induction xs) (auto simp: rev_image_eqI)

lemma get_user_info_flags:
  "map (\<lambda>p. (fst p, plogged_in (snd p))) (providers (flask_session (snd (get_user_info E p ad w)))) =
   map (\<lambda>p. (fst p, plogged_in (snd p))) (providers (flask_session w))"
  by (simp add: get_user_info_def and_then_def ad_item_def emit_def modify_provider_def
        set_provider_item_def modify_session_def Let_def
        map_entry_flags [where h = "\<lambda>v. v"] map_entry_ident
        split: option.splits http_result.splits sum.splits)

lemma mark_logged_in_flags:
  "mark_logged_in provider w = (Inr u, w') \<Longrightarrow>
   map (\<lambda>p. (fst p, plogged_in (snd p))) (providers (flask_session w')) =
   AList.map_entry provider (\<lambda>_. True)
     (map (\<lambda>p. (fst p, plogged_in (snd p))) (providers (flask_session w)))"
  by (auto simp: mark_logged_in_def and_then_def set_provider_item_def modify_provider_def
        modify_session_def Let_def map_entry_flags [where h = "\<lambda>_. True"] split: if_splits)

lemma key_keeps_session: "flask_session (snd (key E k w)) = flask_session w"
  by (simp add: key_def emit_def Let_def split: option.splits sum.splits)

text \<open>Evaluating the model on the scenario.\<close>

lemmas demo_defs = demo_env_def demo_world_login_def demo_world_def demo_session_def
  github_ad_def box_ad_def demo_url_def

lemmas model_defs = oauth_return_def and_then_def pop_outgoing_provider_def get_provider_str_def
  rstrip_chars_def modify_session_def modify_provider_def get_provider_ad_def emit_def
  ad_get_def ad_provider_def exchange_def ad_item_def stored_state_def updated_url_def
  startswith_def fetch_token_def return_def get_user_info_def username_of_def
  split_refresh_token_def write_token_files_def path_join_def replace_char_def makedirs_def
  mkstemp_def json_dump_def rename_token_files_def atomic_rename_def LoggerWriter_write_def
  mark_logged_in_def set_provider_item_def AList.delete_eq

lemma demo_return_github:
  "fst (oauth_return demo_env ''github'' demo_url (demo_world_login ''github'')) = Inr ()"
  by (simp add: demo_defs model_defs Let_def)

lemma demo_session_dict:
  "session_dict ''/cred/0a'' [github_ad, box_ad] = Inr demo_session"
  by (simp add: session_dict_def demo_defs ad_provider_def ad_get_def get_provider_str_def
        rstrip_chars_def new_provider_session_def split_scopes_def lstrip_def rstrip_def
        is_space_def)

lemma demo_login_github:
  "fst (oauth_login demo_env ''github'' demo_world) = Inr ''https://gh/auth?state=s1'' \<and>
   flask_session (snd (oauth_login demo_env ''github'' demo_world)) =
   flask_session (demo_world_login ''github'')"
  by (simp add: oauth_login_def demo_defs model_defs Let_def split_scopes_def)

lemma demo_forged:
  "callback_state demo_env (updated_url demo_forged_url) \<noteq> Some ''s1''"
  by (simp add: demo_env_def demo_forged_url_def updated_url_def startswith_def)

lemma demo_find_github:
  "key_files (demo_world_login ''github'') (key_path (flask_session (demo_world_login ''github''))) = Some [github_ad, box_ad] \<and>
   find_provider_ad ''github'' (key_path (flask_session (demo_world_login ''github''))) [github_ad, box_ad] = Inr github_ad"
  by (simp add: demo_defs modify_session_def modify_provider_def ad_provider_def ad_get_def
    get_provider_str_def rstrip_chars_def)

lemma demo_login_state:
  "outgoing_provider (flask_session (demo_world_login ''github'')) = Some ''github'' \<and>
   map_of (providers (flask_session (demo_world_login ''github''))) ''github'' =
     Some \<lparr>plogged_in = False, requested_scopes = Some [''repo'', ''user''],
           requested_resource = None, state = Some ''s1'', username = None\<rparr>"
  by (simp add: demo_defs modify_session_def modify_provider_def)

lemma demo_unknown:
  "outgoing_provider (flask_session demo_world) = None \<and>
   get_provider_str ''dropbox'' [] = ''dropbox'' \<and>
   get_provider_str ''box'' [] = ''box'' \<and>
   fst ` set (providers (flask_session demo_world)) = {''github'', ''box h''}"
  by (auto simp add: demo_defs get_provider_str_def rstrip_chars_def)

lemma demo_return_box_fallback:
  "outgoing_provider (flask_session
      (modify_provider ''box h'' (\<lambda>ps. ps\<lparr>state := Some ''s1''\<rparr>) demo_world)) = None \<and>
   fst (oauth_return demo_env ''box h'' demo_url
      (modify_provider ''box h'' (\<lambda>ps. ps\<lparr>state := Some ''s1''\<rparr>) demo_world)) = Inr ()"
  by (simp add: demo_defs model_defs Let_def)


lemma demo_return_second:
  "fst (oauth_return demo_env ''box'' demo_url demo_world_second) = Inr ()"
  by (simp add: demo_defs demo_world_second_def model_defs Let_def)

lemma demo_flags:
  "map (\<lambda>p. (fst p, plogged_in (snd p))) (providers (flask_session (demo_world_login ''github''))) =
     [(''github'', False), (''box h'', False)] \<and>
   map (\<lambda>p. (fst p, plogged_in (snd p))) (providers (flask_session demo_world_second)) =
     [(''github'', True), (''box h'', False)] \<and>
   outgoing_provider (flask_session demo_world_second) = Some ''box h''"
  by (simp add: demo_defs demo_world_second_def modify_session_def modify_provider_def)

lemma demo_key_fresh:
  "key demo_env ''0a'' fresh_world =
     (Inr ''index.html'', emit (OpenFile ''/cred/0a'') (emit (PathExists ''/cred/0a'') fresh_world))"
  using demo_session_dict
  by (simp add: key_def re_match_hex_def is_hex_def fresh_world_def demo_world_def demo_env_def
        path_join_def startswith_def emit_def Let_def)


section \<open>The key id check\<close>

text \<open>
  Claim C5. The claim: a key id that contains a character that is not a hexadecimal digit
  is rejected with the format error before any file is looked at. The theorem gives what
  \<^verbatim>\<open>key\<close> does with the id \<^verbatim>\<open>0g\<close>: \<^verbatim>\<open>g\<close> is no hexadecimal digit, yet the id is not
  rejected as not valid, and the next effect of the request is the test whether the file
  \<^verbatim>\<open>0g\<close> exists in the credential directory. The pattern is matched at the start of
  the id only, so one leading hexadecimal digit is enough.
\<close>

theorem key_non_hex_reaches_file_check:
  "\<not> is_hex CHR ''g'' \<and>
   fst (key E ''0g'' w) \<noteq> Inl (KeyIdNotValid ''0g'') \<and>
   take (Suc (length (trace w))) (trace (snd (key E ''0g'' w))) =
     trace w @ [PathExists (path_join (cred_dir E) ''0g'')]"
  by (auto simp: key_def re_match_hex_def is_hex_def emit_def Let_def
           dest: session_dict_error split: option.splits sum.splits)


section \<open>The files of a token\<close>

text \<open>
  Claim C3. Whenever \<^verbatim>\<open>oauth_return\<close> succeeds, the provider it acted for, the ClassAd
  of that provider and the token the provider's endpoint answered with are such that:
  the access token file (\<^verbatim>\<open>.use\<close>) holds the token with every field but
  \<^verbatim>\<open>refresh_token\<close>, in their order; the refresh file (\<^verbatim>\<open>.top\<close>) holds exactly one
  field \<^verbatim>\<open>refresh_token\<close>, with the value of the token's field when it has one and the
  empty string when it has none; the metadata file (\<^verbatim>\<open>.meta\<close>) holds the client id,
  the client secret, the token URL and \<^verbatim>\<open>use_refresh_token\<close>, which is true exactly
  when the token has a field \<^verbatim>\<open>refresh_token\<close>.
\<close>

theorem oauth_return_token_files:
  assumes "fst (oauth_return E called_provider url w) = Inr u"
  shows "\<exists>provider ad client_id client_secret token_url token.
    provider = (case outgoing_provider (flask_session w) of
                  Some p \<Rightarrow> p | None \<Rightarrow> get_provider_str called_provider []) \<and>
    (\<exists>ads. key_files w (key_path (flask_session w)) = Some ads \<and>
           find_provider_ad provider (key_path (flask_session w)) ads = Inr ad) \<and>
    map_of ad ''ClientId'' = Some client_id \<and>
    map_of ad ''ClientSecret'' = Some client_secret \<and>
    map_of ad ''TokenUrl'' = Some token_url \<and>
    token_endpoint E token_url (updated_url url) = Some token \<and>
    cred_files (snd (oauth_return E called_provider url w))
      (cred_path E (local_username (flask_session w)) provider ''.use'') =
      Some (Dumped (JObj (filter (\<lambda>kv. fst kv \<noteq> ''refresh_token'') token))) \<and>
    cred_files (snd (oauth_return E called_provider url w))
      (cred_path E (local_username (flask_session w)) provider ''.top'') =
      Some (Dumped (JObj [(''refresh_token'',
         case map_of token ''refresh_token'' of Some v \<Rightarrow> v | None \<Rightarrow> JStr [])])) \<and>
    cred_files (snd (oauth_return E called_provider url w))
      (cred_path E (local_username (flask_session w)) provider ''.meta'') =
      Some (Dumped (JObj [(''client_id'', JStr client_id), (''client_secret'', JStr client_secret),
         (''token_url'', JStr token_url),
         (''use_refresh_token'', JBool (''refresh_token'' \<in> fst ` set token))]))"
proof -
  obtain w' where r: "oauth_return E called_provider url w = (Inr u, w')"
    using assms by (cases "oauth_return E called_provider url w") auto
  from oauth_return_InrD [OF r]
  obtain provider w0 ad w1 cid cs tu token w2 w3 tok' rt md w4 where
    p1: "pop_outgoing_provider called_provider w = (Inr provider, w0)" and
    p3: "get_provider_ad provider (key_path (flask_session w0)) w0 = (Inr ad, w1)" and
    p4: "exchange E provider ad url w1 = (Inr (cid, cs, tu, token), w2)" and
    p5: "get_user_info E provider ad w2 = (Inr (), w3)" and
    sp: "split_refresh_token token cid cs tu = (tok', rt, md)" and
    p6: "write_token_files E provider tok' rt md w3 = (Inr (), w4)" and
    p7: "mark_logged_in provider w4 = (Inr (), w')"
    by blast
  from pop_outgoing_provider_frame [OF p1] have
    prov: "provider = (case outgoing_provider (flask_session w) of
                  Some p \<Rightarrow> p | None \<Rightarrow> get_provider_str called_provider [])" and
    w0: "w0 = modify_session (\<lambda>s. s\<lparr>outgoing_provider := None\<rparr>) w"
    by auto
  from get_provider_ad_Inr [OF p3] w0 obtain ads where
    ads: "key_files w (key_path (flask_session w)) = Some ads"
         "find_provider_ad provider (key_path (flask_session w)) ads = Inr ad" and
    w1: "w1 = emit (OpenFile (key_path (flask_session w)))
                (emit (PathExists (key_path (flask_session w))) w0)"
    by (auto simp: modify_session_def)
  from exchange_Inr [OF p4] have
    ex: "map_of ad ''ClientId'' = Some cid" "map_of ad ''ClientSecret'' = Some cs"
        "map_of ad ''TokenUrl'' = Some tu" "token_endpoint E tu (updated_url url) = Some token" and
    w2: "w2 = emit (HttpPost tu) w1"
    by auto
  from get_user_info_frame [OF p5] w2 w1 w0 have
    u3: "local_username (flask_session w3) = local_username (flask_session w)"
    by (simp add: emit_def modify_session_def)
  from write_token_files_Inr [OF p6] u3 mark_logged_in_frame [OF p7] have files:
    "cred_files w' (cred_path E (local_username (flask_session w)) provider ''.use'') =
       Some (Dumped tok')"
    "cred_files w' (cred_path E (local_username (flask_session w)) provider ''.top'') =
       Some (Dumped rt)"
    "cred_files w' (cred_path E (local_username (flask_session w)) provider ''.meta'') =
       Some (Dumped md)"
    by auto
  from sp have triad:
    "tok' = JObj (filter (\<lambda>kv. fst kv \<noteq> ''refresh_token'') token)"
    "rt = JObj [(''refresh_token'',
                 case map_of token ''refresh_token'' of Some v \<Rightarrow> v | None \<Rightarrow> JStr [])]"
    "md = JObj [(''client_id'', JStr cid), (''client_secret'', JStr cs), (''token_url'', JStr tu),
            (''use_refresh_token'', JBool (''refresh_token'' \<in> fst ` set token))]"
    by (simp_all add: split_refresh_token_eq)
  from prov ads ex files triad r show ?thesis
    by auto
qed

text \<open>The run for \<^verbatim>\<open>github\<close> of the scenario succeeds, so the theorem speaks about it.\<close>

theorem oauth_return_token_files_witness:
  "fst (oauth_return demo_env ''github'' demo_url (demo_world_login ''github'')) = Inr () \<and>
   (\<exists>provider ad client_id client_secret token_url token.
    provider = (case outgoing_provider (flask_session (demo_world_login ''github'')) of
                  Some p \<Rightarrow> p | None \<Rightarrow> get_provider_str ''github'' []) \<and>
    (\<exists>ads. key_files (demo_world_login ''github'')
             (key_path (flask_session (demo_world_login ''github''))) = Some ads \<and>
           find_provider_ad provider
             (key_path (flask_session (demo_world_login ''github''))) ads = Inr ad) \<and>
    map_of ad ''ClientId'' = Some client_id \<and>
    map_of ad ''ClientSecret'' = Some client_secret \<and>
    map_of ad ''TokenUrl'' = Some token_url \<and>
    token_endpoint demo_env token_url (updated_url demo_url) = Some token \<and>
    cred_files (snd (oauth_return demo_env ''github'' demo_url (demo_world_login ''github'')))
      (cred_path demo_env (local_username (flask_session (demo_world_login ''github'')))
         provider ''.use'') =
      Some (Dumped (JObj (filter (\<lambda>kv. fst kv \<noteq> ''refresh_token'') token))) \<and>
    cred_files (snd (oauth_return demo_env ''github'' demo_url (demo_world_login ''github'')))
      (cred_path demo_env (local_username (flask_session (demo_world_login ''github'')))
         provider ''.top'') =
      Some (Dumped (JObj [(''refresh_token'',
         case map_of token ''refresh_token'' of Some v \<Rightarrow> v | None \<Rightarrow> JStr [])])) \<and>
    cred_files (snd (oauth_return demo_env ''github'' demo_url (demo_world_login ''github'')))
      (cred_path demo_env (local_username (flask_session (demo_world_login ''github'')))
         provider ''.meta'') =
      Some (Dumped (JObj [(''client_id'', JStr client_id), (''client_secret'', JStr client_secret),
         (''token_url'', JStr token_url),
         (''use_refresh_token'', JBool (''refresh_token'' \<in> fst ` set token))])))"
  by (rule conjI [OF demo_return_github oauth_return_token_files [OF demo_return_github]])


section \<open>The session's login flag\<close>

text \<open>
  Claim C4. Let \<^verbatim>\<open>oauth_return\<close> succeed, and let \<open>provider\<close> be the provider it acts
  for. Then the session has the same providers as before, in the same order; the login
  flag of \<open>provider\<close> is true and the one of every other provider is what it was; and the
  flag \<^verbatim>\<open>logged_in\<close> of the session is true if and only if the flag of every provider of
  the session is true, whatever the number of providers. With the names of the providers
  distinct, as in a dictionary, this says: the session is logged in if and only if every
  provider other than \<open>provider\<close> was logged in before.
\<close>

theorem oauth_return_logged_in_iff_all:
  assumes "fst (oauth_return E called_provider url w) = Inr u"
    and "provider = (case outgoing_provider (flask_session w) of
                       Some p \<Rightarrow> p | None \<Rightarrow> get_provider_str called_provider [])"
  shows "map (\<lambda>p. (fst p, plogged_in (snd p)))
           (providers (flask_session (snd (oauth_return E called_provider url w)))) =
         AList.map_entry provider (\<lambda>_. True)
           (map (\<lambda>p. (fst p, plogged_in (snd p))) (providers (flask_session w))) \<and>
         logged_in (flask_session (snd (oauth_return E called_provider url w))) =
         (\<forall>p \<in> set (providers (flask_session (snd (oauth_return E called_provider url w)))).
            plogged_in (snd p)) \<and>
         (distinct (map fst (providers (flask_session w))) \<longrightarrow>
          logged_in (flask_session (snd (oauth_return E called_provider url w))) =
          (\<forall>p \<in> set (providers (flask_session w)). fst p \<noteq> provider \<longrightarrow> plogged_in (snd p)))"
proof -
  let ?flags = "\<lambda>w. map (\<lambda>p. (fst p, plogged_in (snd p))) (providers (flask_session w))"
  obtain w' where r: "oauth_return E called_provider url w = (Inr u, w')"
    using assms(1) by (cases "oauth_return E called_provider url w") auto
  from oauth_return_InrD [OF r]
  obtain provider' w0 ad w1 cid cs tu token w2 w3 tok' rt md w4 where
    p1: "pop_outgoing_provider called_provider w = (Inr provider', w0)" and
    p3: "get_provider_ad provider' (key_path (flask_session w0)) w0 = (Inr ad, w1)" and
    p4: "exchange E provider' ad url w1 = (Inr (cid, cs, tu, token), w2)" and
    p5: "get_user_info E provider' ad w2 = (Inr (), w3)" and
    p6: "write_token_files E provider' tok' rt md w3 = (Inr (), w4)" and
    p7: "mark_logged_in provider' w4 = (Inr (), w')"
    by blast
  from pop_outgoing_provider_frame [OF p1] assms(2) have eq: "provider' = provider"
    and f0: "?flags w0 = ?flags w"
    by (simp_all add: modify_session_def)
  have f1: "flask_session w1 = flask_session w0"
    using get_provider_ad_session [of provider' "key_path (flask_session w0)" w0] p3 by simp
  have f2: "flask_session w2 = flask_session w1"
    using exchange_session [of E provider' ad url w1] p4 by simp
  have f3: "?flags w3 = ?flags w2"
    using get_user_info_flags [of E provider' ad w2] p5 by simp
  have f4: "flask_session w4 = flask_session w3"
    using write_token_files_session [of E provider' tok' rt md w3] p6 by simp
  have flags: "?flags w' = AList.map_entry provider (\<lambda>_. True) (?flags w)"
    using mark_logged_in_flags [OF p7] eq f0 f1 f2 f3 f4 by simp
  have all: "logged_in (flask_session w') =
      (\<forall>p \<in> set (providers (flask_session w')). plogged_in (snd p))"
    by (rule mark_logged_in_flag [OF p7])
  have "(\<forall>p \<in> set (providers (flask_session w')). plogged_in (snd p)) =
        (\<forall>q \<in> set (?flags w'). snd q)"
    by simp
  also have "\<dots> = (\<forall>q \<in> set (AList.map_entry provider (\<lambda>_. True) (?flags w)). snd q)"
    by (simp only: flags)
  finally have others: "logged_in (flask_session w') =
      (\<forall>p \<in> set (providers (flask_session w)). fst p \<noteq> provider \<longrightarrow> plogged_in (snd p))"
    if "distinct (map fst (providers (flask_session w)))"
    using all that ball_map_entry_True [of "?flags w" provider]
    by (simp add: comp_def)
  from flags all others r show ?thesis
    by simp
qed

text \<open>In the scenario the callback for \<^verbatim>\<open>github\<close> leaves the session not logged in, since
  \<^verbatim>\<open>box\<close> is not; the callback for \<^verbatim>\<open>box\<close> after it makes the session logged in.\<close>

theorem oauth_return_logged_in_iff_all_witness:
  "fst (oauth_return demo_env ''github'' demo_url (demo_world_login ''github'')) = Inr () \<and>
   map (\<lambda>p. (fst p, plogged_in (snd p)))
     (providers (flask_session
        (snd (oauth_return demo_env ''github'' demo_url (demo_world_login ''github''))))) =
     [(''github'', True), (''box h'', False)] \<and>
   logged_in (flask_session
     (snd (oauth_return demo_env ''github'' demo_url (demo_world_login ''github'')))) = False \<and>
   fst (oauth_return demo_env ''box'' demo_url demo_world_second) = Inr () \<and>
   map (\<lambda>p. (fst p, plogged_in (snd p)))
     (providers (flask_session (snd (oauth_return demo_env ''box'' demo_url demo_world_second)))) =
     [(''github'', True), (''box h'', True)] \<and>
   logged_in (flask_session (snd (oauth_return demo_env ''box'' demo_url demo_world_second))) = True"
proof -
  let ?flags = "\<lambda>w. map (\<lambda>p. (fst p, plogged_in (snd p))) (providers (flask_session w))"
  let ?w1 = "snd (oauth_return demo_env ''github'' demo_url (demo_world_login ''github''))"
  let ?w2 = "snd (oauth_return demo_env ''box'' demo_url demo_world_second)"
  have ball: "(\<forall>p \<in> set (providers (flask_session v)). plogged_in (snd p)) =
              (\<forall>q \<in> set (?flags v). snd q)" for v
    by simp
  have h1: "''github'' = (case outgoing_provider (flask_session (demo_world_login ''github'')) of
                       Some p \<Rightarrow> p | None \<Rightarrow> get_provider_str ''github'' [])"
    using demo_login_state by simp
  have h2: "''box h'' = (case outgoing_provider (flask_session demo_world_second) of
                       Some p \<Rightarrow> p | None \<Rightarrow> get_provider_str ''box'' [])"
    using demo_flags by simp
  note t1 = oauth_return_logged_in_iff_all [OF demo_return_github h1]
  note t2 = oauth_return_logged_in_iff_all [OF demo_return_second h2]
  from t1 [THEN conjunct1] demo_flags
  have a: "?flags ?w1 = [(''github'', True), (''box h'', False)]"
    by simp
  from t1 [THEN conjunct2, THEN conjunct1]
  have a': "logged_in (flask_session ?w1) = (\<forall>q \<in> set (?flags ?w1). snd q)"
    by (simp only: ball)
  from t2 [THEN conjunct1] demo_flags
  have b: "?flags ?w2 = [(''github'', True), (''box h'', True)]"
    by simp
  from t2 [THEN conjunct2, THEN conjunct1]
  have b': "logged_in (flask_session ?w2) = (\<forall>q \<in> set (?flags ?w2). snd q)"
    by (simp only: ball)
  from a a' have "logged_in (flask_session ?w1) = False" by simp
  moreover from b b' have "logged_in (flask_session ?w2) = True" by simp
  ultimately show ?thesis
    using a b demo_return_github demo_return_second by (intro conjI)
qed


section \<open>The state of the callback\<close>

text \<open>
  Claim C1. Let the provider that \<^verbatim>\<open>oauth_return\<close> resolves have a stored state, and let
  the state in the callback URL handed to the token exchange (the request URL after the
  upgrade of its scheme, which leaves the query alone) differ from it. Then, for every
  environment and so whatever the provider would answer to the code, \<^verbatim>\<open>oauth_return\<close>
  raises, performs no network call, and leaves the credential files, the providers of the
  session and its login flag as they were; when the ClassAd of the provider is found and
  has its client id, return URL, client secret and token URL, the error is
  \<open>CsrfMismatchError\<close>. The comparison of the two states is the one of \<open>fetch_token\<close>:
  the module hands the stored state and the callback URL to the OAuth library and has no
  comparison of its own; before that call it only reads the session and the key file.
\<close>

theorem oauth_return_csrf_mismatch:
  assumes "provider = (case outgoing_provider (flask_session w) of
                         Some p \<Rightarrow> p | None \<Rightarrow> get_provider_str called_provider [])"
    and "map_of (providers (flask_session w)) provider = Some ps"
    and "state ps = Some st"
    and "callback_state E (updated_url url) \<noteq> Some st"
  shows "(\<exists>e. fst (oauth_return E called_provider url w) = Inl e) \<and>
         filter is_network (trace (snd (oauth_return E called_provider url w))) =
           filter is_network (trace w) \<and>
         cred_files (snd (oauth_return E called_provider url w)) = cred_files w \<and>
         providers (flask_session (snd (oauth_return E called_provider url w))) =
           providers (flask_session w) \<and>
         logged_in (flask_session (snd (oauth_return E called_provider url w))) =
           logged_in (flask_session w) \<and>
         (\<forall>ads ad. key_files w (key_path (flask_session w)) = Some ads \<and>
            find_provider_ad provider (key_path (flask_session w)) ads = Inr ad \<and>
            {''ClientId'', ''ReturnUrl'', ''ClientSecret'', ''TokenUrl''} \<subseteq> fst ` set ad \<longrightarrow>
            fst (oauth_return E called_provider url w) = Inl CsrfMismatchError)"
proof -
  let ?path = "key_path (flask_session w)"
  define w0 where "w0 = modify_session (\<lambda>s. s\<lparr>outgoing_provider := None\<rparr>) w"
  have p: "pop_outgoing_provider called_provider w = (Inr provider, w0)"
    by (simp add: pop_outgoing_provider_def assms(1) w0_def)
  have mem: "provider \<in> fst ` set (providers (flask_session w0))"
    using assms(2) by (auto simp: w0_def modify_session_def dest: map_of_SomeD intro: rev_image_eqI)
  have path0: "key_path (flask_session w0) = ?path" and kf0: "key_files w0 = key_files w"
    by (simp_all add: w0_def modify_session_def)
  have step: "oauth_return E called_provider url w =
      and_then (get_provider_ad provider ?path) (\<lambda>provider_ad.
        and_then (exchange E provider provider_ad url) (\<lambda>(client_id, client_secret, token_url, token).
          and_then (get_user_info E provider provider_ad) (\<lambda>_.
            (case split_refresh_token token client_id client_secret token_url of
               (token', refresh_token, metadata) \<Rightarrow>
                 and_then (write_token_files E provider token' refresh_token metadata) (\<lambda>_.
                 mark_logged_in provider))))) w0"
    unfolding oauth_return_def
    by (subst and_then_def) (simp only: p prod.case sum.case mem path0 not_True_eq_False if_False)
  obtain r w1 where g: "get_provider_ad provider ?path w0 = (r, w1)"
    by (cases "get_provider_ad provider ?path w0") auto
  from get_provider_ad_cases [OF g] have w1:
    "flask_session w1 = flask_session w0" "cred_files w1 = cred_files w0"
    "filter is_network (trace w1) = filter is_network (trace w0)"
    by (auto simp: emit_def)
  have frame0: "filter is_network (trace w0) = filter is_network (trace w)"
    "cred_files w0 = cred_files w" "providers (flask_session w0) = providers (flask_session w)"
    "logged_in (flask_session w0) = logged_in (flask_session w)"
    by (simp_all add: w0_def modify_session_def)
  show ?thesis
  proof (cases r)
    case (Inl e)
    with g step have res: "oauth_return E called_provider url w = (Inl e, w1)"
      by (simp add: and_then_def)
    from get_provider_ad_cases [OF g] Inl kf0
    have "\<not> (\<exists>ads ad. key_files w ?path = Some ads \<and> find_provider_ad provider ?path ads = Inr ad)"
      by auto
    with res w1 frame0 show ?thesis by auto
  next
    case (Inr ad)
    have "map_of (providers (flask_session w1)) provider = Some ps"
      using assms(2) w1 frame0 by simp
    from exchange_mismatch [OF this assms(3,4), of ad] obtain e where
      e: "exchange E provider ad url w1 = (Inl e, w1)"
         "{''ClientId'', ''ReturnUrl'', ''ClientSecret'', ''TokenUrl''} \<subseteq> fst ` set ad
              \<longrightarrow> e = CsrfMismatchError"
      by blast
    with g step Inr have res: "oauth_return E called_provider url w = (Inl e, w1)"
      by (simp add: and_then_def)
    from get_provider_ad_cases [OF g] Inr kf0
    have "\<forall>ads ad'. key_files w ?path = Some ads \<and> find_provider_ad provider ?path ads = Inr ad'
        \<longrightarrow> ad' = ad"
      by auto
    with res w1 frame0 e show ?thesis by auto
  qed
qed

text \<open>In the scenario, the callback for \<^verbatim>\<open>github\<close> with the state \<^verbatim>\<open>s2\<close> instead of
  \<^verbatim>\<open>s1\<close> is refused without a network call.\<close>

theorem oauth_return_csrf_mismatch_witness:
  "map_of (providers (flask_session (demo_world_login ''github''))) ''github'' =
     Some \<lparr>plogged_in = False, requested_scopes = Some [''repo'', ''user''],
           requested_resource = None, state = Some ''s1'', username = None\<rparr> \<and>
   callback_state demo_env (updated_url demo_forged_url) \<noteq> Some ''s1'' \<and>
   fst (oauth_return demo_env ''github'' demo_forged_url (demo_world_login ''github'')) =
     Inl CsrfMismatchError \<and>
   filter is_network
     (trace (snd (oauth_return demo_env ''github'' demo_forged_url (demo_world_login ''github'')))) =
     filter is_network (trace (demo_world_login ''github''))"
proof -
  let ?ps = "\<lparr>plogged_in = False, requested_scopes = Some [''repo'', ''user''],
           requested_resource = None, state = Some ''s1'', username = None\<rparr>"
  have h1: "''github'' = (case outgoing_provider (flask_session (demo_world_login ''github'')) of
                         Some p \<Rightarrow> p | None \<Rightarrow> get_provider_str ''github'' [])"
    using demo_login_state by simp
  have h2: "map_of (providers (flask_session (demo_world_login ''github''))) ''github'' = Some ?ps"
    using demo_login_state by simp
  have h3: "state ?ps = Some ''s1''"
    by simp
  have fields: "{''ClientId'', ''ReturnUrl'', ''ClientSecret'', ''TokenUrl''} \<subseteq> fst ` set github_ad"
    by (simp add: github_ad_def)
  from oauth_return_csrf_mismatch [OF h1 h2 h3 demo_forged] demo_find_github fields h2 demo_forged
  show ?thesis
    by blast
qed


section \<open>The provider a callback acts for\<close>

text \<open>
  Claim C7. Let \<open>provider\<close> be the outgoing provider of the session when there is one and
  otherwise the provider string of the name in the callback path. Then: after a successful
  \<^verbatim>\<open>oauth_login\<close> for \<open>q\<close> the provider is \<open>q\<close>; with an outgoing provider recorded, the
  name in the callback path plays no role at all; a provider that is not among the
  providers of the session makes \<^verbatim>\<open>oauth_return\<close> raise "Provider ... not in list of
  providers", with no effect but the removal of the outgoing provider (so before any look
  at the key file and before any network call); and a successful \<^verbatim>\<open>oauth_return\<close> has
  set the login flag of that provider.
\<close>

theorem oauth_return_provider_resolution:
  assumes "provider = (case outgoing_provider (flask_session w) of
                         Some p \<Rightarrow> p | None \<Rightarrow> get_provider_str called_provider [])"
  shows "(\<forall>q a w0. w = snd (oauth_login E q w0) \<and> fst (oauth_login E q w0) = Inr a
            \<longrightarrow> provider = q) \<and>
         (\<forall>q. outgoing_provider (flask_session w) = Some q \<longrightarrow>
            provider = q \<and> oauth_return E called_provider url w = oauth_return E other url w) \<and>
         (provider \<notin> fst ` set (providers (flask_session w)) \<longrightarrow>
            oauth_return E called_provider url w =
              (Inl (ProviderNotInList provider),
               modify_session (\<lambda>s. s\<lparr>outgoing_provider := None\<rparr>) w)) \<and>
         (fst (oauth_return E called_provider url w) = Inr u \<longrightarrow>
            (\<exists>ps. map_of (providers (flask_session (snd (oauth_return E called_provider url w))))
                     provider = Some ps \<and> plogged_in ps))"
proof (intro conjI allI impI)
  fix q a w0
  assume "w = snd (oauth_login E q w0) \<and> fst (oauth_login E q w0) = Inr a"
  with oauth_login_Inr [of E q w0 a] assms show "provider = q"
    by simp
next
  fix q assume q: "outgoing_provider (flask_session w) = Some q"
  with assms show "provider = q" by simp
  from q show "oauth_return E called_provider url w = oauth_return E other url w"
    by (rule oauth_return_ignores_called_provider)
next
  assume "provider \<notin> fst ` set (providers (flask_session w))"
  with assms show "oauth_return E called_provider url w =
              (Inl (ProviderNotInList provider),
               modify_session (\<lambda>s. s\<lparr>outgoing_provider := None\<rparr>) w)"
    by (rule oauth_return_unknown)
next
  assume "fst (oauth_return E called_provider url w) = Inr u"
  with assms show "\<exists>ps. map_of (providers (flask_session (snd (oauth_return E called_provider url w))))
                     provider = Some ps \<and> plogged_in ps"
    by (rule oauth_return_marks_provider)
qed

theorem oauth_return_provider_resolution_witness:
  "fst (oauth_login demo_env ''github'' demo_world) = Inr ''https://gh/auth?state=s1'' \<and>
   (case outgoing_provider (flask_session (snd (oauth_login demo_env ''github'' demo_world))) of
      Some p \<Rightarrow> p | None \<Rightarrow> get_provider_str ''box'' []) = ''github'' \<and>
   fst (oauth_return demo_env ''box'' demo_url (demo_world_login ''github'')) = Inr () \<and>
   (\<exists>ps. map_of (providers (flask_session
            (snd (oauth_return demo_env ''box'' demo_url (demo_world_login ''github'')))))
            ''github'' = Some ps \<and> plogged_in ps) \<and>
   ''dropbox'' \<notin> fst ` set (providers (flask_session demo_world)) \<and>
   oauth_return demo_env ''dropbox'' demo_url demo_world =
     (Inl (ProviderNotInList ''dropbox''),
      modify_session (\<lambda>s. s\<lparr>outgoing_provider := None\<rparr>) demo_world)"
proof -
  have a: "(case outgoing_provider (flask_session (snd (oauth_login demo_env ''github'' demo_world))) of
      Some p \<Rightarrow> p | None \<Rightarrow> get_provider_str ''box'' []) = ''github''"
    using oauth_return_provider_resolution
      [where w = "snd (oauth_login demo_env ''github'' demo_world)" and called_provider = "''box''"
         and E = demo_env, OF refl]
      demo_login_github
    by blast
  have h: "''github'' = (case outgoing_provider (flask_session (demo_world_login ''github'')) of
                         Some p \<Rightarrow> p | None \<Rightarrow> get_provider_str ''box'' [])"
    using demo_login_state by simp
  have same: "oauth_return demo_env ''box'' demo_url (demo_world_login ''github'') =
        oauth_return demo_env ''github'' demo_url (demo_world_login ''github'')"
    using oauth_return_provider_resolution
      [OF h, where E = demo_env and url = demo_url and other = "''github''"] demo_login_state
    by blast
  with demo_return_github
  have ok: "fst (oauth_return demo_env ''box'' demo_url (demo_world_login ''github'')) = Inr ()"
    by simp
  with oauth_return_provider_resolution [OF h, where E = demo_env and url = demo_url and u = "()"]
  have b: "\<exists>ps. map_of (providers (flask_session
            (snd (oauth_return demo_env ''box'' demo_url (demo_world_login ''github'')))))
            ''github'' = Some ps \<and> plogged_in ps"
    by blast
  have h': "''dropbox'' = (case outgoing_provider (flask_session demo_world) of
                         Some p \<Rightarrow> p | None \<Rightarrow> get_provider_str ''dropbox'' [])"
    using demo_unknown by simp
  have notin: "''dropbox'' \<notin> fst ` set (providers (flask_session demo_world))"
    using demo_unknown by simp
  with oauth_return_provider_resolution [OF h', where E = demo_env and url = demo_url]
  have c: "oauth_return demo_env ''dropbox'' demo_url demo_world =
     (Inl (ProviderNotInList ''dropbox''),
      modify_session (\<lambda>s. s\<lparr>outgoing_provider := None\<rparr>) demo_world)"
    by blast
  from a ok b notin c demo_login_github show ?thesis
    by blast
qed


section \<open>The callback without an outgoing provider\<close>

text \<open>
  Claim C10 says that without an outgoing provider a provider whose ClassAd has a handle
  that is not empty can never be resolved and fails as unknown. It can be resolved: the
  name in the callback path is taken whole, so the path \<^verbatim>\<open>/return/box h\<close> resolves the
  provider \<^verbatim>\<open>box\<close> with the handle \<^verbatim>\<open>h\<close>, and the run below succeeds.
\<close>

theorem fallback_resolves_handle_counterexample:
  "ad_provider box_ad = Some ''box h'' \<and>
   map_of box_ad ''Handle'' = Some ''h'' \<and> ''h'' \<noteq> [] \<and>
   outgoing_provider (flask_session
      (modify_provider ''box h'' (\<lambda>ps. ps\<lparr>state := Some ''s1''\<rparr>) demo_world)) = None \<and>
   fst (oauth_return demo_env ''box h'' demo_url
      (modify_provider ''box h'' (\<lambda>ps. ps\<lparr>state := Some ''s1''\<rparr>) demo_world)) = Inr ()"
  using demo_return_box_fallback
  by (simp add: box_ad_def ad_provider_def ad_get_def get_provider_str_def rstrip_chars_def)

text \<open>
  Claim C10, as the code has it. Every call of \<^verbatim>\<open>oauth_return\<close> leaves the session
  without an outgoing provider. Without an outgoing provider, the provider is the provider string of the name in
  the callback path with the empty handle, which is that name without its trailing
  spaces: not in the session, it is refused with "Provider ... not in list of providers";
  on success its flag is set. The provider string of a provider with a handle that has a
  character other than a space differs from the provider string of the provider alone, so
  the callback path of the bare provider name does not resolve it.
\<close>

theorem oauth_return_fallback_resolution:
  "outgoing_provider (flask_session (snd (oauth_return E called_provider url w))) = None \<and>
   (outgoing_provider (flask_session w) = None \<longrightarrow>
      (get_provider_str called_provider [] \<notin> fst ` set (providers (flask_session w)) \<longrightarrow>
         oauth_return E called_provider url w =
           (Inl (ProviderNotInList (get_provider_str called_provider [])),
            modify_session (\<lambda>s. s\<lparr>outgoing_provider := None\<rparr>) w)) \<and>
      (fst (oauth_return E called_provider url w) = Inr u \<longrightarrow>
         (\<exists>ps. map_of (providers (flask_session (snd (oauth_return E called_provider url w))))
                  (get_provider_str called_provider []) = Some ps \<and> plogged_in ps))) \<and>
   get_provider_str called_provider [] = rstrip_chars '' '' called_provider \<and>
   ((\<exists>c \<in> set handle. c \<noteq> CHR '' '') \<longrightarrow>
      get_provider_str p handle \<noteq> get_provider_str p [])"
proof (intro conjI impI)
  show "outgoing_provider (flask_session (snd (oauth_return E called_provider url w))) = None"
    by (rule oauth_return_pops)
next
  assume n: "outgoing_provider (flask_session w) = None"
  then have r: "get_provider_str called_provider [] =
      (case outgoing_provider (flask_session w) of
         Some p \<Rightarrow> p | None \<Rightarrow> get_provider_str called_provider [])"
    by simp
  {
    assume "get_provider_str called_provider [] \<notin> fst ` set (providers (flask_session w))"
    with r show "oauth_return E called_provider url w =
           (Inl (ProviderNotInList (get_provider_str called_provider [])),
            modify_session (\<lambda>s. s\<lparr>outgoing_provider := None\<rparr>) w)"
      by (rule oauth_return_unknown)
  next
    assume "fst (oauth_return E called_provider url w) = Inr u"
    with r show "\<exists>ps. map_of (providers (flask_session (snd (oauth_return E called_provider url w))))
                  (get_provider_str called_provider []) = Some ps \<and> plogged_in ps"
      by (rule oauth_return_marks_provider)
  }
next
  show "get_provider_str called_provider [] = rstrip_chars '' '' called_provider"
    by (rule get_provider_str_empty)
next
  assume "\<exists>c \<in> set handle. c \<noteq> CHR '' ''"
  then show "get_provider_str p handle \<noteq> get_provider_str p []"
    by (rule get_provider_str_handle_neq)
qed

theorem oauth_return_fallback_resolution_witness:
  "outgoing_provider (flask_session demo_world) = None \<and>
   get_provider_str ''box'' [] \<notin> fst ` set (providers (flask_session demo_world)) \<and>
   oauth_return demo_env ''box'' demo_url demo_world =
     (Inl (ProviderNotInList (get_provider_str ''box'' [])),
      modify_session (\<lambda>s. s\<lparr>outgoing_provider := None\<rparr>) demo_world) \<and>
   get_provider_str ''box'' ''h'' \<noteq> get_provider_str ''box'' [] \<and>
   outgoing_provider (flask_session (snd (oauth_return demo_env ''box'' demo_url demo_world))) = None"
proof -
  have n: "outgoing_provider (flask_session demo_world) = None"
    and notin: "get_provider_str ''box'' [] \<notin> fst ` set (providers (flask_session demo_world))"
    using demo_unknown by simp_all
  have hd: "\<exists>c \<in> set ''h''. c \<noteq> CHR '' ''"
    by simp
  from oauth_return_fallback_resolution
    [where E = demo_env and called_provider = "''box''" and url = demo_url and w = demo_world
       and handle = "''h''" and p = "''box''"]
    n notin hd
  show ?thesis
    by blast
qed



section \<open>A rename that fails\<close>

text \<open>
  Claim C2. The claim: when one of the three renames fails, the login attempt fails, the
  error reaches the caller as the error of the file system, and the provider is not
  marked as logged in. The theorem runs \<^verbatim>\<open>oauth_return\<close> for \<^verbatim>\<open>github\<close> in the scenario
  with a file system that refuses the second rename, the one onto \<^verbatim>\<open>github.top\<close>. The
  handler of the \<^verbatim>\<open>try\<close> block catches the \<^verbatim>\<open>OSError\<close> and calls
  \<^verbatim>\<open>sys.stderr.write(e)\<close> with the exception object; \<^verbatim>\<open>sys.stderr\<close> is the
  \<^verbatim>\<open>LoggerWriter\<close> of the module, whose \<^verbatim>\<open>write\<close> calls \<^verbatim>\<open>rstrip\<close> on its argument.
  So what leaves the function is an \<^verbatim>\<open>AttributeError\<close>, not the \<^verbatim>\<open>OSError\<close>: the
  attempt fails and no provider is marked, the access token file, renamed first, stays in
  place, and the other two files are not there.
\<close>

theorem rename_failure_surfaces_attribute_error:
  "fst (oauth_return (demo_env\<lparr>rename_fails := (\<lambda>p. p = ''/cred/alice/github.top'')\<rparr>)
          ''github'' demo_url (demo_world_login ''github'')) = Inl AttributeError \<and>
   map (\<lambda>p. (fst p, plogged_in (snd p)))
     (providers (flask_session
        (snd (oauth_return (demo_env\<lparr>rename_fails := (\<lambda>p. p = ''/cred/alice/github.top'')\<rparr>)
                ''github'' demo_url (demo_world_login ''github''))))) =
     [(''github'', False), (''box h'', False)] \<and>
   map (cred_files
        (snd (oauth_return (demo_env\<lparr>rename_fails := (\<lambda>p. p = ''/cred/alice/github.top'')\<rparr>)
                ''github'' demo_url (demo_world_login ''github''))))
     [''/cred/alice/github.use'', ''/cred/alice/github.top'', ''/cred/alice/github.meta''] =
     [Some (Dumped (JObj [(''access_token'', JStr ''a1'')])), None, None]"
  by (simp add: demo_defs model_defs Let_def)


section \<open>The user name\<close>

text \<open>
  Claim C6. The claim: every failure of the identity request gives the user name
  \<^verbatim>\<open>Unknown\<close>, and none of them stops the login. The block is announced by the comment
  "get user info if available" and does recover when the body is not JSON: the run for
  \<^verbatim>\<open>box\<close>, whose identity endpoint answers with such a body, succeeds with the user name
  \<^verbatim>\<open>Unknown\<close>. Its handler is for \<^verbatim>\<open>ValueError\<close> only. The theorem runs
  \<^verbatim>\<open>oauth_return\<close> for \<^verbatim>\<open>github\<close> in the scenario with an identity endpoint that cannot
  be reached, and with a ClassAd without \<^verbatim>\<open>UserUrl\<close>: the error leaves the function
  (\<^verbatim>\<open>ConnectionError\<close>, \<^verbatim>\<open>KeyError\<close>) after the token was obtained from the provider,
  and no file of the token is written.
\<close>

theorem identity_failure_aborts_login:
  "fst (oauth_return (demo_env\<lparr>user_endpoint := (\<lambda>u. TransportError)\<rparr>)
          ''github'' demo_url (demo_world_login ''github'')) = Inl ConnectionError \<and>
   filter is_network
     (trace (snd (oauth_return (demo_env\<lparr>user_endpoint := (\<lambda>u. TransportError)\<rparr>)
                    ''github'' demo_url (demo_world_login ''github'')))) =
     [HttpPost ''https://gh/token'', HttpGet ''https://gh/user''] \<and>
   cred_files
     (snd (oauth_return (demo_env\<lparr>user_endpoint := (\<lambda>u. TransportError)\<rparr>)
             ''github'' demo_url (demo_world_login ''github''))) ''/cred/alice/github.use'' = None \<and>
   fst (oauth_return demo_env ''github'' demo_url
          ((demo_world_login ''github'')
             \<lparr>key_files := [''/cred/0a'' \<mapsto> [github_ad_no_user_url, box_ad]]\<rparr>)) =
     Inl (KeyError ''UserUrl'') \<and>
   user_endpoint demo_env ''https://box/user'' = Body None \<and>
   fst (oauth_return demo_env ''box'' demo_url demo_world_second) = Inr () \<and>
   map (\<lambda>p. (fst p, username (snd p)))
     (providers (flask_session (snd (oauth_return demo_env ''box'' demo_url demo_world_second)))) =
     [(''github'', None), (''box h'', Some (JStr ''Unknown''))]"
  by (simp add: demo_defs demo_world_second_def model_defs github_ad_no_user_url_def Let_def)


section \<open>The providers of a new session\<close>

text \<open>
  Claim C8. The claim: the key page gives the session one entry for each provider of the
  key file, not logged in, with its scopes and audience. The theorem runs \<^verbatim>\<open>key\<close> on
  the key file of the scenario in a fresh world. The dictionary with the entries for
  \<^verbatim>\<open>github\<close> and \<^verbatim>\<open>box h\<close> is built, the page is returned, and the session has no
  provider afterwards: line 175 binds the dictionary to a local name. For every key
  file and world, the providers of the session after \<^verbatim>\<open>key\<close> are those before it.
\<close>

theorem key_stores_no_provider_session:
  "session_dict ''/cred/0a'' [github_ad, box_ad] = Inr demo_session \<and>
   map fst (providers demo_session) = [''github'', ''box h''] \<and>
   key demo_env ''0a'' fresh_world =
     (Inr ''index.html'', emit (OpenFile ''/cred/0a'') (emit (PathExists ''/cred/0a'') fresh_world)) \<and>
   providers (flask_session (snd (key demo_env ''0a'' fresh_world))) = [] \<and>
   providers (flask_session (snd (key E k w))) = providers (flask_session w)"
  using demo_session_dict demo_key_fresh key_keeps_session [of demo_env "''0a''" fresh_world]
    key_keeps_session [of E k w]
  by (simp add: demo_session_def fresh_world_def fresh_session_def)


section \<open>The local user of a new session\<close>

text \<open>
  Claim C9. The claim: the local user of the session is the \<^verbatim>\<open>LocalUser\<close> of the last
  ClassAd of the key file. In the scenario the ClassAds name \<^verbatim>\<open>bob\<close> and, last,
  \<^verbatim>\<open>alice\<close>; \<^verbatim>\<open>key\<close> returns the page, and the session of the fresh world still has
  no local user. For every key file and world, the local user of the session after
  \<^verbatim>\<open>key\<close> is the one before it: the value of line 173 goes into the dictionary that
  line 175 binds to a local name.
\<close>

theorem key_stores_no_local_username:
  "map (\<lambda>ad. map_of ad ''LocalUser'') [github_ad, box_ad] = [Some ''bob'', Some ''alice''] \<and>
   fst (key demo_env ''0a'' fresh_world) = Inr ''index.html'' \<and>
   local_username (flask_session (snd (key demo_env ''0a'' fresh_world))) = [] \<and>
   local_username (flask_session (snd (key E k w))) = local_username (flask_session w)"
  using demo_key_fresh key_keeps_session [of demo_env "''0a''" fresh_world]
    key_keeps_session [of E k w]
  by (simp add: github_ad_def box_ad_def fresh_world_def fresh_session_def)


end
